theory Spec2Isabelle
  imports Complex_Main
begin

section \<open>Python values and exceptions\<close>

text \<open>
  Every \<^verbatim>\<open>raise\<close>, failed \<^verbatim>\<open>assert\<close> and failing built-in of the Python sources is a
  value of \<open>error\<close>; an operation that may raise returns \<open>error + 'a\<close>, with \<open>Inl\<close>
  the exception.
\<close>

datatype error =
    ValueError string
  | AssertionError
  | AttributeError string
  | TypeError string
  | NameError string
  | IndexError
  | KeyError
  | ZeroDivisionError
  | UnicodeEncodeError

datatype pyval = PyNone | PyInt int | PyStr string | PyBool bool

section \<open>messages.py: the message catalogue\<close>

definition STATE :: string where "STATE = ''State''"

definition ACTION :: string where "ACTION = ''Action''"

definition INIT :: string where "INIT = ''Init''"

definition SAVE :: string where "SAVE = ''Save''"

definition LOAD :: string where "LOAD = ''Load''"

definition ACK :: string where "ACK = ''Ack''"

definition REQUEST_BEHAVIOR_COUNT :: string where
  "REQUEST_BEHAVIOR_COUNT = ''RequestBehaviorCount''"

definition BEHAVIOR_COUNT :: string where "BEHAVIOR_COUNT = ''BehaviorCount''"

text \<open>The nine classes of messages.py; the suffix keeps them apart from the messages
  the adapter builds.\<close>

datatype msg_class =
    BaseMessage_cls
  | AckMessage_cls
  | StateMessage_cls
  | ActionMessage_cls
  | InitMessage_cls
  | SaveMessage_cls
  | LoadMessage_cls
  | RequestBehaviorCountMessage_cls
  | BehaviorCountMessage_cls

text \<open>The default of the \<^verbatim>\<open>msg_type\<close> parameter of each \<^verbatim>\<open>__init__\<close>.\<close>

fun default_msg_type :: "msg_class \<Rightarrow> pyval" where
  "default_msg_type BaseMessage_cls = PyNone"
| "default_msg_type AckMessage_cls = PyStr ACK"
| "default_msg_type StateMessage_cls = PyStr STATE"
| "default_msg_type ActionMessage_cls = PyStr ACTION"
| "default_msg_type InitMessage_cls = PyStr INIT"
| "default_msg_type SaveMessage_cls = PyStr SAVE"
| "default_msg_type LoadMessage_cls = PyStr LOAD"
| "default_msg_type RequestBehaviorCountMessage_cls = PyStr REQUEST_BEHAVIOR_COUNT"
| "default_msg_type BehaviorCountMessage_cls = PyStr BEHAVIOR_COUNT"

text \<open>The parameters of each \<^verbatim>\<open>__init__\<close> after \<^verbatim>\<open>msg_type\<close>, in order; each defaults to
  \<^verbatim>\<open>None\<close> and is stored in the attribute of the same name.\<close>

fun init_fields :: "msg_class \<Rightarrow> string list" where
  "init_fields BaseMessage_cls = []"
| "init_fields AckMessage_cls = []"
| "init_fields StateMessage_cls =
     [''index'', ''pacman_position'', ''ghost_positions'', ''food_positions'',
      ''wall_positions'', ''legal_actions'', ''reward'', ''executed_action'', ''explore'']"
| "init_fields ActionMessage_cls = [''index'', ''action'']"
| "init_fields InitMessage_cls = []"
| "init_fields SaveMessage_cls = [''index'', ''filename'']"
| "init_fields LoadMessage_cls = [''index'', ''filename'']"
| "init_fields RequestBehaviorCountMessage_cls = [''index'']"
| "init_fields BehaviorCountMessage_cls = [''count'']"

definition init_params :: "msg_class \<Rightarrow> string list" where
  "init_params c = ''msg_type'' # init_fields c"

definition param_default :: "msg_class \<Rightarrow> string \<Rightarrow> pyval" where
  "param_default c p = (if p = ''msg_type'' then default_msg_type c else PyNone)"

text \<open>
  Python's argument binding for a signature whose parameters all have defaults: a call
  with \<open>n\<close> positional arguments and keyword names \<open>ks\<close> raises \<^verbatim>\<open>TypeError\<close> when there are
  too many positional arguments, when a keyword is no parameter, or when a keyword names a
  parameter a positional argument has filled already.
\<close>

definition accepts :: "msg_class \<Rightarrow> nat \<Rightarrow> string list \<Rightarrow> bool" where
  "accepts c n ks \<longleftrightarrow>
     n \<le> length (init_params c) \<and>
     list_all (\<lambda>k. k \<in> set (init_params c) \<and> k \<notin> set (take n (init_params c))) ks"

record message =
  msg_class :: msg_class
  attrs :: "(string \<times> pyval) list"

fun bind_params :: "msg_class \<Rightarrow> string list \<Rightarrow> pyval list \<Rightarrow> (string \<times> pyval) list
    \<Rightarrow> (string \<times> pyval) list" where
  "bind_params c [] args kwargs = []"
| "bind_params c (p # ps) (v # args) kwargs = (p, v) # bind_params c ps args kwargs"
| "bind_params c (p # ps) [] kwargs =
     (p, case map_of kwargs p of Some v \<Rightarrow> v | None \<Rightarrow> param_default c p)
       # bind_params c ps [] kwargs"

text \<open>Instantiating a class of messages.py: no \<^verbatim>\<open>__init__\<close> inspects its arguments, so
  the only failure is a call the signature does not accept.\<close>

definition new_message :: "msg_class \<Rightarrow> pyval list \<Rightarrow> (string \<times> pyval) list
    \<Rightarrow> error + message" where
  "new_message c args kwargs =
     (if accepts c (length args) (map fst kwargs)
      then Inr \<lparr>msg_class = c, attrs = bind_params c (init_params c) args kwargs\<rparr>
      else Inl (TypeError ''__init__() arguments''))"

definition getattr :: "message \<Rightarrow> string \<Rightarrow> error + pyval" where
  "getattr m a = (case map_of (attrs m) a of
                    Some v \<Rightarrow> Inr v
                  | None \<Rightarrow> Inl (AttributeError a))"



section \<open>experiments/pacman/features.py\<close>

type_synonym position = "int \<times> int"

text \<open>
  The state object a feature is called on is not among the sources; a feature reads it
  through four methods only, which are the fields here. Python floats are modelled as
  reals.
\<close>

record feature_state =
  get_position :: position
  get_agent_position :: "nat \<Rightarrow> position"
  calculate_distance :: "position \<Rightarrow> position \<Rightarrow> real"
  get_food_distance :: real

text \<open>Float division raises on a zero divisor.\<close>

definition py_div :: "real \<Rightarrow> real \<Rightarrow> error + real" where
  "py_div a b = (if b = 0 then Inl ZeroDivisionError else Inr (a / b))"

definition EnemyDistanceFeature_call :: "nat \<Rightarrow> feature_state \<Rightarrow> error + real" where
  "EnemyDistanceFeature_call enemy_id state =
     (let agent_position = get_position state;
          enemy_position = get_agent_position state enemy_id;
          distance = calculate_distance state agent_position enemy_position;
          distance = (if distance = 0 then 1 else distance)
      in py_div 1 distance)"

definition FoodDistanceFeature_call :: "feature_state \<Rightarrow> error + real" where
  "FoodDistanceFeature_call state =
     (let distance = get_food_distance state;
          distance = (if distance = 0 then 1 else distance)
      in py_div 1 distance)"

section \<open>pacman/adapter.py: the collaborators of the adapter\<close>

text \<open>
  The Berkeley simulator, the messages module the adapter imports, the communication
  channel and the ghost agents are not among the sources. The adapter uses each through
  a narrow interface, which is what is modelled: a game state is the record of its
  getters, a message is the class the adapter instantiates with the arguments of the call
  site, and the channel is the list of messages handed to \<^verbatim>\<open>communicate\<close>. Scores and
  coordinates are integers.
\<close>

datatype direction = NORTH | SOUTH | EAST | WEST | STOP

record layout =
  width :: nat
  height :: nat

record game_state =
  getPacmanPosition :: position
  getGhostPositions :: "position list"
  getFood :: "bool list list"
  getWalls :: "bool list list"
  scaredTimers :: "int list"
  getLegalActions :: "nat \<Rightarrow> direction list"
  getScore :: int

datatype pacman_class =
  RandomPacmanAgent | RandomPacmanAgentTwo | BehaviorLearningPacmanAgent | EaterPacmanAgent

datatype ghost_class = RandomGhost | BehaviorLearningGhostAgent

text \<open>A stored policy is an opaque payload; as a Python object it is falsy when empty.\<close>

datatype policy = Policy "nat list"

fun policy_truthy :: "policy \<Rightarrow> bool" where
  "policy_truthy (Policy ws) = (ws \<noteq> [])"

text \<open>The keyword arguments of the \<^verbatim>\<open>StateMessage\<close> call in \<^verbatim>\<open>send_state\<close>.\<close>

record state_message =
  agent_id :: nat
  agent_positions :: "nat \<rightharpoonup> position"
  food_positions :: "(nat \<times> nat) list"
  fragile_agents :: "nat \<rightharpoonup> real"
  wall_positions :: "(nat \<times> nat) list"
  legal_actions :: "direction list"
  reward :: int
  executed_action :: direction
  test_mode :: bool

text \<open>The messages the adapter agent hands to its channel, one constructor for each
  class it instantiates.\<close>

datatype adapter_message =
    RequestRegisterMessage nat string pacman_class
  | RequestInitializationMessage nat
  | RequestGameStartMessage nat nat nat
  | StateMessage state_message




text \<open>The simulator plays one game: it asks the Pac-Man agent for an action at each of
  its turns and goes on from the answer, until the game is over.\<close>

datatype sim = GameOver game_state | Turn game_state "direction \<Rightarrow> sim"

text \<open>
  What lies outside the adapter: the layout files, the random source, the responder at
  the other end of the channel (it sees every message sent so far), the simulator (one
  game for each call of \<^verbatim>\<open>runGames\<close>), the behaviour counts a ghost reports and the
  policy files.
\<close>

record env =
  get_berkeley_layout :: "string \<Rightarrow> layout option"
  entropy :: "nat \<Rightarrow> nat"
  reply_action :: "adapter_message list \<Rightarrow> direction"
  run_berkeley_games :: "nat \<Rightarrow> sim"
  get_behavior_count :: "nat \<Rightarrow> nat \<Rightarrow> (string \<times> int) list"
  stored_policies :: "string \<Rightarrow> (nat \<rightharpoonup> policy) option"

text \<open>
  The class of the ghost agents is not among the sources. A method the experiment calls on
  a ghost agent goes to that ghost's own responder; what is kept of it is the call.
\<close>

datatype ghost_call =
    GhostRegister string ghost_class
  | GhostInitialize
  | GhostStartGame
  | GhostLoadPolicy policy
  | GhostUpdate
  | GhostGetBehaviorCount
  | GhostEnableTestMode

text \<open>
  The state shared by all objects: the two class attributes of \<^verbatim>\<open>BerkeleyAdapterAgent\<close>,
  the messages sent over the Pac-Man agent's channel, the calls made on the ghost agents
  (each with the identifier of the ghost), the number of random draws made and the number
  of games the simulator has run.
\<close>

record world =
  pacman_index :: nat
  noise :: int
  sent :: "adapter_message list"
  ghost_calls :: "(nat \<times> ghost_call) list"
  rng_pos :: nat
  games_run :: nat

definition initial_world :: world where
  "initial_world =
     \<lparr>pacman_index = 0, noise = 0, sent = [], ghost_calls = [], rng_pos = 0, games_run = 0\<rparr>"

definition communicate :: "adapter_message \<Rightarrow> world \<Rightarrow> world" where
  "communicate m w = w\<lparr>sent := sent w @ [m]\<rparr>"

text \<open>\<^verbatim>\<open>random.randrange(start, stop)\<close> with the raw draw \<open>u\<close>: any value of the half-open
  range, and \<^verbatim>\<open>ValueError\<close> when the range is empty.\<close>

definition randrange :: "int \<Rightarrow> int \<Rightarrow> nat \<Rightarrow> error + int" where
  "randrange start stop u =
     (if start < stop then Inr (start + int (u mod nat (stop - start)))
      else Inl (ValueError ''empty range for randrange()''))"

text \<open>The cells of a grid that hold \<^verbatim>\<open>True\<close>, as the two nested \<^verbatim>\<open>enumerate\<close> loops of
  \<^verbatim>\<open>send_state\<close> collect them: \<open>x\<close> counts rows, \<open>y\<close> the cells of a row.\<close>

definition grid_positions :: "bool list list \<Rightarrow> (nat \<times> nat) list" where
  "grid_positions grid =
     concat (map (\<lambda>(x, row). map (\<lambda>(y, b). (y, x)) (filter snd (enumerate 0 row)))
                 (enumerate 0 grid))"

section \<open>pacman/adapter.py: BerkeleyAdapterAgent\<close>

text \<open>An attribute that no assignment has created yet is \<open>None\<close>; reading it raises
  \<^verbatim>\<open>AttributeError\<close>.\<close>

record adapter_agent =
  index :: nat
  agent_type :: string
  agent_class :: "pacman_class option"
  policy :: "policy option"
  game_state :: "game_state option"
  is_test_mode :: bool
  layout :: "layout option"
  scores :: "int list"
  agent_behavior_count :: "nat \<rightharpoonup> (string \<rightharpoonup> int list)"
  previous_score :: "int option"
  previous_action :: "direction option"

definition BerkeleyAdapterAgent_init :: "string \<Rightarrow> adapter_agent" where
  "BerkeleyAdapterAgent_init agent_type_arg =
     \<lparr>index = 0, agent_type = agent_type_arg, agent_class = None, policy = None,
      game_state = None, is_test_mode = False, layout = None, scores = [],
      agent_behavior_count = Map.empty, previous_score = None, previous_action = None\<rparr>"

text \<open>\<^verbatim>\<open>_load_policy\<close>: with a truthy policy the argument of the message is the unbound
  name \<^verbatim>\<open>policy\<close>.\<close>

definition load_policy :: "adapter_agent \<Rightarrow> world \<Rightarrow> error + world" where
  "load_policy a w =
     (case policy a of
        None \<Rightarrow> Inr w
      | Some p \<Rightarrow> if policy_truthy p then Inl (NameError ''policy'') else Inr w)"

definition register :: "adapter_agent \<Rightarrow> world \<Rightarrow> error + (adapter_agent \<times> world)" where
  "register a w =
     (case (if agent_type a = ''random'' then Inr RandomPacmanAgent
            else if agent_type a = ''random2'' then Inr RandomPacmanAgentTwo
            else if agent_type a = ''ai'' then Inr BehaviorLearningPacmanAgent
            else if agent_type a = ''eater'' then Inr EaterPacmanAgent
            else Inl (ValueError ''Pac-Man agent must be ai, random, random2 or eater.''))
      of Inl e \<Rightarrow> Inl e
       | Inr c \<Rightarrow>
           Inr (a\<lparr>agent_class := Some c\<rparr>,
                communicate (RequestRegisterMessage (index a) ''pacman'' c) w))"

definition initialize :: "adapter_agent \<Rightarrow> world \<Rightarrow> world" where
  "initialize a w = communicate (RequestInitializationMessage (index a)) w"

definition start_experiment :: "adapter_agent \<Rightarrow> world \<Rightarrow> error + (adapter_agent \<times> world)" where
  "start_experiment a w =
     (case load_policy a w of
        Inl e \<Rightarrow> Inl e
      | Inr w1 \<Rightarrow>
          (case register a w1 of
             Inl e \<Rightarrow> Inl e
           | Inr (a2, w2) \<Rightarrow> Inr (a2, initialize a2 w2)))"

definition reset_game_data :: "adapter_agent \<Rightarrow> adapter_agent" where
  "reset_game_data a = a\<lparr>previous_score := Some 0, previous_action := Some NORTH\<rparr>"

definition request_game_start :: "adapter_agent \<Rightarrow> world \<Rightarrow> error + world" where
  "request_game_start a w =
     (case layout a of
        None \<Rightarrow> Inl (AttributeError ''width'')
      | Some l \<Rightarrow> Inr (communicate (RequestGameStartMessage (index a) (width l) (height l)) w))"

definition start_game :: "adapter_agent \<Rightarrow> world \<Rightarrow> error + (adapter_agent \<times> world)" where
  "start_game a w =
     (let a1 = reset_game_data a
      in case request_game_start a1 w of
           Inl e \<Rightarrow> Inl e
         | Inr w1 \<Rightarrow> Inr (a1, w1))"

text \<open>
  \<^verbatim>\<open>_log_behavior_count\<close> of the agent: its first statement calls the method itself with
  the argument \<^verbatim>\<open>self.pacman\<close>. The agent has no such attribute, and the method takes no
  argument, so the statement raises whatever the base classes provide; the request and the
  loop that follow it are never reached.
\<close>

definition BerkeleyAdapterAgent_log_behavior_count ::
    "adapter_agent \<Rightarrow> world \<Rightarrow> error + (adapter_agent \<times> world)" where
  "BerkeleyAdapterAgent_log_behavior_count a w = Inl (AttributeError ''pacman'')"

text \<open>\<^verbatim>\<open>finish_game\<close> logs the last score, \<^verbatim>\<open>results['scores'][-1]\<close>, before anything else.\<close>

definition finish_game :: "adapter_agent \<Rightarrow> world \<Rightarrow> error + (adapter_agent \<times> world)" where
  "finish_game a w =
     (if scores a = [] then Inl IndexError
      else if agent_type a = ''ai'' then BerkeleyAdapterAgent_log_behavior_count a w
      else Inr (a, w))"

definition noise_error :: "world \<Rightarrow> nat \<Rightarrow> error + int" where
  "noise_error w u = randrange (- noise w) (noise w + 1) u"

definition calculate_reward :: "adapter_agent \<Rightarrow> int \<Rightarrow> error + int" where
  "calculate_reward a current_score =
     (case previous_score a of
        None \<Rightarrow> Inl (AttributeError ''previous_score'')
      | Some p \<Rightarrow> Inr (current_score - p))"

text \<open>The loop over the ghosts in \<^verbatim>\<open>send_state\<close>. A position of the simulator is
  \<open>(x, y)\<close>; \<^verbatim>\<open>pos[::-1]\<close> is \<open>(y, x)\<close>. Each ghost takes two draws, the first for \<open>y\<close>.\<close>

fun ghost_loop :: "env \<Rightarrow> world \<Rightarrow> nat \<Rightarrow> position list \<Rightarrow> (nat \<rightharpoonup> position) \<Rightarrow> nat
    \<Rightarrow> error + ((nat \<rightharpoonup> position) \<times> nat)" where
  "ghost_loop e w idn [] ap r = Inr (ap, r)"
| "ghost_loop e w idn (pos # rest) ap r =
     (case noise_error w (entropy e r) of
        Inl err \<Rightarrow> Inl err
      | Inr n1 \<Rightarrow>
          (case noise_error w (entropy e (r + 1)) of
             Inl err \<Rightarrow> Inl err
           | Inr n2 \<Rightarrow>
               (let pos_y = snd pos + n1;
                    pos_x = fst pos + n2
                in ghost_loop e w (idn + 1) rest (ap(idn + 1 \<mapsto> (pos_y, pos_x))) (r + 2))))"

definition fragile_of :: "int list \<Rightarrow> (nat \<rightharpoonup> real)" where
  "fragile_of timers =
     map_of (map (\<lambda>(idn, t). (idn, if t > 0 then 1 else 0)) (enumerate 0 timers))"

definition send_state :: "env \<Rightarrow> adapter_agent \<Rightarrow> world
    \<Rightarrow> error + (direction \<times> adapter_agent \<times> world)" where
  "send_state e a w =
     (case game_state a of
        None \<Rightarrow> Inl (AttributeError ''getPacmanPosition'')
      | Some g \<Rightarrow>
          (case ghost_loop e w 0 (getGhostPositions g)
                  (Map.empty(pacman_index w \<mapsto> prod.swap (getPacmanPosition g))) (rng_pos w) of
             Inl err \<Rightarrow> Inl err
           | Inr (positions, r) \<Rightarrow>
               (case calculate_reward a (getScore g) of
                  Inl err \<Rightarrow> Inl err
                | Inr rew \<Rightarrow>
                    (let a1 = a\<lparr>previous_score := Some (getScore g)\<rparr>
                     in case previous_action a1 of
                          None \<Rightarrow> Inl (AttributeError ''previous_action'')
                        | Some pa \<Rightarrow>
                            (let message = StateMessage
                                   \<lparr>agent_id = index a1,
                                    agent_positions = positions,
                                    food_positions = grid_positions (getFood g),
                                    fragile_agents = fragile_of (scaredTimers g),
                                    wall_positions = grid_positions (getWalls g),
                                    legal_actions = getLegalActions g (index a1),
                                    reward = rew,
                                    executed_action = pa,
                                    test_mode = is_test_mode a1\<rparr>;
                                 w1 = communicate message (w\<lparr>rng_pos := r\<rparr>)
                             in Inr (reply_action e (sent w1), a1, w1))))))"

definition receive_action :: "env \<Rightarrow> adapter_agent \<Rightarrow> world
    \<Rightarrow> error + (direction \<times> adapter_agent \<times> world)" where
  "receive_action e a w = send_state e a w"

definition getAction :: "env \<Rightarrow> adapter_agent \<Rightarrow> game_state \<Rightarrow> world
    \<Rightarrow> error + (direction \<times> adapter_agent \<times> world)" where
  "getAction e a g w =
     (case receive_action e (a\<lparr>game_state := Some g\<rparr>) w of
        Inl err \<Rightarrow> Inl err
      | Inr (action, a1, w1) \<Rightarrow> Inr (action, a1\<lparr>previous_action := Some action\<rparr>, w1))"

definition enable_test_mode :: "adapter_agent \<Rightarrow> adapter_agent" where
  "enable_test_mode a = a\<lparr>is_test_mode := True\<rparr>"

section \<open>pacman/adapter.py: BerkeleyAdapter\<close>

text \<open>\<^verbatim>\<open>str\<close> of an integer.\<close>

fun str_nat :: "nat \<Rightarrow> string" where
  "str_nat n =
     (if n < 10 then [''0123456789'' ! n]
      else str_nat (n div 10) @ [''0123456789'' ! (n mod 10)])"

definition str_int :: "int \<Rightarrow> string" where
  "str_int i = (if i < 0 then CHR ''-'' # str_nat (nat (- i)) else str_nat (nat i))"

text \<open>A ghost adapter agent (its class is not among the sources): its identifier, the
  role and class it was registered with, and its test-mode flag.\<close>

record ghost_adapter_agent =
  ghost_id :: nat
  ghost_registered :: "(string \<times> ghost_class) option"
  ghost_test_mode :: bool

definition GhostAdapterAgent :: "nat \<Rightarrow> ghost_adapter_agent" where
  "GhostAdapterAgent i = \<lparr>ghost_id = i, ghost_registered = None, ghost_test_mode = False\<rparr>"

definition call_ghost :: "nat \<Rightarrow> ghost_call \<Rightarrow> world \<Rightarrow> world" where
  "call_ghost i c w = w\<lparr>ghost_calls := ghost_calls w @ [(i, c)]\<rparr>"

text \<open>\<^verbatim>\<open>for agent in self.all_agents: agent.method()\<close>: one call on each ghost, in order.\<close>

fun call_ghosts :: "ghost_call \<Rightarrow> ghost_adapter_agent list \<Rightarrow> world \<Rightarrow> world" where
  "call_ghosts c [] w = w"
| "call_ghosts c (g # gs) w = call_ghosts c gs (call_ghost (ghost_id g) c w)"

definition ghost_register :: "string \<Rightarrow> ghost_class \<Rightarrow> ghost_adapter_agent \<Rightarrow> world
    \<Rightarrow> ghost_adapter_agent \<times> world" where
  "ghost_register role c g w =
     (g\<lparr>ghost_registered := Some (role, c)\<rparr>, call_ghost (ghost_id g) (GhostRegister role c) w)"

definition ghost_enable_test_mode :: "ghost_adapter_agent \<Rightarrow> ghost_adapter_agent" where
  "ghost_enable_test_mode g = g\<lparr>ghost_test_mode := True\<rparr>"

text \<open>The loop of the constructor over \<^verbatim>\<open>xrange(num_ghosts)\<close>: each ghost is created with the
  identifier \<open>i + 1\<close>, registered, and appended to the list.\<close>

fun create_ghosts :: "ghost_class \<Rightarrow> nat list \<Rightarrow> ghost_adapter_agent list \<Rightarrow> world
    \<Rightarrow> ghost_adapter_agent list \<times> world" where
  "create_ghosts gc [] gs w = (gs, w)"
| "create_ghosts gc (i # rest) gs w =
     (case ghost_register ''ghost'' gc (GhostAdapterAgent (i + 1)) w of
        (ghost, w1) \<Rightarrow> create_ghosts gc rest (gs @ [ghost]) w1)"

text \<open>
  A file name is a byte string or a unicode string (the command line builds the name of
  the policy file with \<^verbatim>\<open>unicode(s, 'utf8')\<close>). \<^verbatim>\<open>str\<close> returns a byte string as it is
  and encodes a unicode string as ASCII, which fails on a code point above 127.
\<close>

datatype pytext = Bytes string | Unicode "nat list"

fun text_truthy :: "pytext \<Rightarrow> bool" where
  "text_truthy (Bytes s) = (s \<noteq> [])"
| "text_truthy (Unicode cs) = (cs \<noteq> [])"

fun py_str :: "pytext \<Rightarrow> error + string" where
  "py_str (Bytes s) = Inr s"
| "py_str (Unicode cs) =
     (if list_all (\<lambda>c. c < 128) cs then Inr (map char_of cs) else Inl UnicodeEncodeError)"

record results =
  learn_scores :: "int list"
  test_scores :: "int list"
  behavior_count :: "nat \<rightharpoonup> (string \<rightharpoonup> int list)"

text \<open>The arguments of the constructor (those of the communication layer left out).\<close>

record init_args =
  arg_pacman_agent :: string
  arg_ghost_agent :: string
  arg_num_ghosts :: int
  arg_noise :: int
  arg_policy_file :: "pytext option"
  arg_layout_map :: string
  arg_learn_runs :: int
  arg_test_runs :: int
  arg_output_file :: "pytext option"
  arg_graphics :: bool

text \<open>\<^verbatim>\<open>self.all_agents\<close> is the list \<^verbatim>\<open>self.ghosts\<close> itself. \<^verbatim>\<open>results\<close> and \<^verbatim>\<open>policies\<close>
  are created by \<^verbatim>\<open>start\<close>.\<close>

record berkeley_adapter =
  adapter_layout :: layout
  pacman :: adapter_agent
  num_ghosts :: int
  ghost_class :: ghost_class
  ghosts :: "ghost_adapter_agent list"
  policy_file :: "string option"
  learn_runs :: int
  test_runs :: int
  output_file :: string
  graphics :: bool
  results :: "results option"
  policies :: "(nat \<rightharpoonup> policy) option"

text \<open>\<^verbatim>\<open>str(name) if name else None\<close>.\<close>

definition str_if_truthy :: "pytext option \<Rightarrow> error + string option" where
  "str_if_truthy name =
     (case name of
        None \<Rightarrow> Inr None
      | Some t \<Rightarrow>
          if text_truthy t
          then (case py_str t of Inl err \<Rightarrow> Inl err | Inr s \<Rightarrow> Inr (Some s))
          else Inr None)"

text \<open>The name of the layout file, as the first lines of the constructor build it.\<close>

definition layout_file :: "init_args \<Rightarrow> string" where
  "layout_file args =
     (let LAYOUT_PATH = ''pacman/layouts'';
          file_name = str_int (arg_num_ghosts args) @ ''Ghosts''
      in LAYOUT_PATH @ ''/'' @ (arg_layout_map args @ file_name))"

definition BerkeleyAdapter_init :: "env \<Rightarrow> init_args \<Rightarrow> world
    \<Rightarrow> error + (berkeley_adapter \<times> world)" where
  "BerkeleyAdapter_init e args w =
     (case get_berkeley_layout e (layout_file args) of
        None \<Rightarrow> Inl (ValueError (''Layout '' @ layout_file args @ '' missing.''))
      | Some lay \<Rightarrow>
          (let pm = BerkeleyAdapterAgent_init (arg_pacman_agent args);
               n = arg_num_ghosts args
           in if \<not> (1 \<le> n \<and> n \<le> 4) then Inl (ValueError ''Must 1-4 ghost(s).'')
              else
                (case (if arg_ghost_agent args = ''random'' then Inr RandomGhost
                       else if arg_ghost_agent args = ''ai''
                            then Inr BehaviorLearningGhostAgent
                       else Inl (ValueError ''Ghost agent must be ai or random.''))
                 of Inl err \<Rightarrow> Inl err
                  | Inr gc \<Rightarrow>
                      (case create_ghosts gc [0..<nat (arg_num_ghosts args)] [] w of
                         (gs, w1) \<Rightarrow>
                           (case str_if_truthy (arg_policy_file args) of
                              Inl err \<Rightarrow> Inl err
                            | Inr pf \<Rightarrow>
                                if \<not> (arg_learn_runs args > 0) then Inl AssertionError
                                else if \<not> (arg_test_runs args > 0) then Inl AssertionError
                                else
                                  (case (case str_if_truthy (arg_output_file args) of
                                           Inl err \<Rightarrow> Inl err
                                         | Inr (Some f) \<Rightarrow> Inr f
                                         | Inr None \<Rightarrow>
                                             Inr (arg_pacman_agent args @ ''_''
                                                  @ arg_layout_map args @ ''_''
                                                  @ str_int (arg_num_ghosts args) @ ''_''
                                                  @ arg_ghost_agent args @ ''.res''))
                                   of Inl err \<Rightarrow> Inl err
                                    | Inr out \<Rightarrow>
                                        Inr (\<lparr>adapter_layout = lay,
                                              pacman = pm,
                                              num_ghosts = n,
                                              ghost_class = gc,
                                              ghosts = gs,
                                              policy_file = pf,
                                              learn_runs = arg_learn_runs args,
                                              test_runs = arg_test_runs args,
                                              output_file = out,
                                              graphics = arg_graphics args,
                                              results = None,
                                              policies = None\<rparr>, w1)))))))"

definition load_policies_from_file :: "env \<Rightarrow> string option \<Rightarrow> (nat \<rightharpoonup> policy)" where
  "load_policies_from_file e filename =
     (case filename of
        None \<Rightarrow> Map.empty
      | Some f \<Rightarrow> (case stored_policies e f of None \<Rightarrow> Map.empty | Some ps \<Rightarrow> ps))"

text \<open>\<^verbatim>\<open>_log_behavior_count\<close> of the experiment: the loop over the items of the counts a
  ghost reports, then the method itself. \<open>k\<close> numbers the game.\<close>

fun log_items :: "nat \<Rightarrow> (string \<times> int) list \<Rightarrow> results \<Rightarrow> error + results" where
  "log_items aid [] r = Inr r"
| "log_items aid ((behavior, count) # rest) r =
     (case behavior_count r aid of
        None \<Rightarrow> Inl KeyError
      | Some per \<Rightarrow>
          (let per1 = (if per behavior = None then per(behavior \<mapsto> []) else per)
           in case per1 behavior of
                None \<Rightarrow> Inl KeyError
              | Some xs \<Rightarrow>
                  log_items aid rest
                    (r\<lparr>behavior_count :=
                         (behavior_count r)(aid \<mapsto> per1(behavior \<mapsto> xs @ [count]))\<rparr>)))"

definition BerkeleyAdapter_log_behavior_count :: "env \<Rightarrow> nat \<Rightarrow> ghost_adapter_agent
    \<Rightarrow> berkeley_adapter \<times> world \<Rightarrow> error + (berkeley_adapter \<times> world)" where
  "BerkeleyAdapter_log_behavior_count e k agent = (\<lambda>(ad, w).
     (let w1 = call_ghost (ghost_id agent) GhostGetBehaviorCount w;
          counts = get_behavior_count e k (ghost_id agent)
      in if counts = [] then Inr (ad, w1)
         else (case results ad of
                 None \<Rightarrow> Inl (AttributeError ''results'')
               | Some r \<Rightarrow>
                   (case log_items (ghost_id agent) counts r of
                      Inl err \<Rightarrow> Inl err
                    | Inr r1 \<Rightarrow> Inr (ad\<lparr>results := Some r1\<rparr>, w1)))))"

fun log_ghosts :: "env \<Rightarrow> nat \<Rightarrow> ghost_adapter_agent list \<Rightarrow> berkeley_adapter \<times> world
    \<Rightarrow> error + (berkeley_adapter \<times> world)" where
  "log_ghosts e k [] s = Inr s"
| "log_ghosts e k (ghost # rest) s =
     (case BerkeleyAdapter_log_behavior_count e k ghost s of
        Inl err \<Rightarrow> Inl err
      | Inr s1 \<Rightarrow> log_ghosts e k rest s1)"

text \<open>The loop of \<^verbatim>\<open>_run_game\<close> that hands its stored policy to each ghost that has
  one; \<^verbatim>\<open>self.policies\<close> exists only once \<^verbatim>\<open>start\<close> has run.\<close>

fun load_ghost_policies :: "(nat \<rightharpoonup> policy) option \<Rightarrow> ghost_adapter_agent list \<Rightarrow> world
    \<Rightarrow> error + world" where
  "load_ghost_policies ps [] w = Inr w"
| "load_ghost_policies ps (g # gs) w =
     (case ps of
        None \<Rightarrow> Inl (AttributeError ''policies'')
      | Some m \<Rightarrow>
          load_ghost_policies ps gs
            (case m (ghost_id g) of
               None \<Rightarrow> w
             | Some p \<Rightarrow> call_ghost (ghost_id g) (GhostLoadPolicy p) w))"

text \<open>The simulator runs one game, calling \<^verbatim>\<open>getAction\<close> of the Pac-Man agent at every
  turn; it returns the final game state.\<close>

primrec play :: "env \<Rightarrow> sim \<Rightarrow> adapter_agent \<Rightarrow> world
    \<Rightarrow> error + (game_state \<times> adapter_agent \<times> world)" where
  "play e (GameOver g) a w = Inr (g, a, w)"
| "play e (Turn g k) a w =
     (case getAction e a g w of
        Inl err \<Rightarrow> Inl err
      | Inr (action, a1, w1) \<Rightarrow> play e (k action) a1 w1)"

text \<open>\<^verbatim>\<open>_run_game\<close>: the ghosts start the game and load their policies, the simulator
  plays, the Pac-Man agent is asked once more so that it sees the last reward, the ghosts
  are updated, the behaviour counts are logged and the final score is returned.\<close>

definition run_game :: "env \<Rightarrow> berkeley_adapter \<Rightarrow> world
    \<Rightarrow> error + (int \<times> berkeley_adapter \<times> world)" where
  "run_game e ad w =
     (case (if policy_file ad \<noteq> None
            then load_ghost_policies (policies ad) (ghosts ad)
                   (call_ghosts GhostStartGame (ghosts ad) w)
            else Inr (call_ghosts GhostStartGame (ghosts ad) w))
      of Inl err \<Rightarrow> Inl err
       | Inr wa \<Rightarrow>
           (let k = games_run wa;
                w0 = wa\<lparr>games_run := Suc k\<rparr>
            in case play e (run_berkeley_games e k) (pacman ad) w0 of
                 Inl err \<Rightarrow> Inl err
               | Inr (final, pm1, w1) \<Rightarrow>
                   (case getAction e pm1 final w1 of
                      Inl err \<Rightarrow> Inl err
                    | Inr (action, pm2, w2) \<Rightarrow>
                        (case (if ghost_class ad = BehaviorLearningGhostAgent
                               then log_ghosts e k (ghosts ad)
                                      (ad\<lparr>pacman := pm2\<rparr>,
                                       call_ghosts GhostUpdate (ghosts ad) w2)
                               else Inr (ad\<lparr>pacman := pm2\<rparr>,
                                         call_ghosts GhostUpdate (ghosts ad) w2))
                         of Inl err \<Rightarrow> Inl err
                          | Inr (ad1, w3) \<Rightarrow> Inr (getScore final, ad1, w3)))))"

text \<open>\<^verbatim>\<open>start\<close>: the results and the policies are created, every ghost is initialised,
  and the Pac-Man agent is given its policy and the layout and starts the experiment.\<close>

definition start :: "env \<Rightarrow> berkeley_adapter \<Rightarrow> world \<Rightarrow> error + (berkeley_adapter \<times> world)" where
  "start e ad w =
     (let r = \<lparr>learn_scores = [], test_scores = [],
               behavior_count =
                 (if ghost_class ad = BehaviorLearningGhostAgent
                  then map_of (map (\<lambda>ghost. (ghost_id ghost, Map.empty)) (ghosts ad))
                  else Map.empty)\<rparr>;
          ps = load_policies_from_file e (policy_file ad);
          w0 = call_ghosts GhostInitialize (ghosts ad) w;
          pm = (pacman ad)\<lparr>policy := ps (index (pacman ad)),
                            layout := Some (adapter_layout ad)\<rparr>
      in case start_experiment pm w0 of
           Inl err \<Rightarrow> Inl err
         | Inr (pm1, w1) \<Rightarrow>
             Inr (ad\<lparr>results := Some r, policies := Some ps, pacman := pm1\<rparr>, w1))"

text \<open>The body of the two loops of \<^verbatim>\<open>execute\<close>; \<open>test\<close> tells the second loop from the
  first.\<close>

definition game :: "env \<Rightarrow> bool \<Rightarrow> berkeley_adapter \<times> world
    \<Rightarrow> error + (berkeley_adapter \<times> world)" where
  "game e test = (\<lambda>(ad, w).
     (case start_game (pacman ad) w of
        Inl err \<Rightarrow> Inl err
      | Inr (pm1, w1) \<Rightarrow>
          (case run_game e (ad\<lparr>pacman := pm1\<rparr>) w1 of
             Inl err \<Rightarrow> Inl err
           | Inr (score, ad2, w2) \<Rightarrow>
               (case results ad2 of
                  None \<Rightarrow> Inl (AttributeError ''results'')
                | Some r \<Rightarrow>
                    (let r1 = (if test then r\<lparr>test_scores := test_scores r @ [score]\<rparr>
                               else r\<lparr>learn_scores := learn_scores r @ [score]\<rparr>);
                         pm2 = (pacman ad2)\<lparr>scores := scores (pacman ad2) @ [score]\<rparr>
                     in case finish_game pm2 w2 of
                          Inl err \<Rightarrow> Inl err
                        | Inr (pm3, w3) \<Rightarrow>
                            Inr (ad2\<lparr>results := Some r1, pacman := pm3\<rparr>, w3))))))"

text \<open>\<^verbatim>\<open>for x in xrange(n): body\<close>, where the body does not use \<open>x\<close>.\<close>

primrec xrange_loop :: "nat \<Rightarrow> ('s \<Rightarrow> error + 's) \<Rightarrow> 's \<Rightarrow> error + 's" where
  "xrange_loop 0 body s = Inr s"
| "xrange_loop (Suc n) body s =
     (case body s of Inl err \<Rightarrow> Inl err | Inr s1 \<Rightarrow> xrange_loop n body s1)"

definition execute :: "env \<Rightarrow> berkeley_adapter \<Rightarrow> world
    \<Rightarrow> error + (berkeley_adapter \<times> world)" where
  "execute e ad w =
     (case xrange_loop (nat (learn_runs ad)) (game e False) (ad, w) of
        Inl err \<Rightarrow> Inl err
      | Inr (ad1, w1) \<Rightarrow>
          xrange_loop (nat (test_runs ad1)) (game e True)
            (ad1\<lparr>pacman := enable_test_mode (pacman ad1),
                 ghosts := map ghost_enable_test_mode (ghosts ad1)\<rparr>,
             call_ghosts GhostEnableTestMode (ghosts ad1) w1))"

text \<open>An experiment is constructed, started and executed, in this order.\<close>

definition build_and_start :: "env \<Rightarrow> init_args \<Rightarrow> world
    \<Rightarrow> error + (berkeley_adapter \<times> world)" where
  "build_and_start e args w =
     (case BerkeleyAdapter_init e args w of
        Inl err \<Rightarrow> Inl err
      | Inr (ad, w1) \<Rightarrow> start e ad w1)"

definition run_experiment :: "env \<Rightarrow> init_args \<Rightarrow> world
    \<Rightarrow> error + (berkeley_adapter \<times> world)" where
  "run_experiment e args w =
     (case build_and_start e args w of
        Inl err \<Rightarrow> Inl err
      | Inr (ad, w1) \<Rightarrow> execute e ad w1)"

section \<open>Traces\<close>

text \<open>The messages of one game, as the channel sees them: the request that starts the
  game, then one or more state messages, all with the same test-mode flag.\<close>

fun is_state_with :: "bool \<Rightarrow> adapter_message \<Rightarrow> bool" where
  "is_state_with t (StateMessage m) = (test_mode m = t)"
| "is_state_with t other = False"

fun episode_trace :: "bool \<Rightarrow> adapter_message list \<Rightarrow> bool" where
  "episode_trace t (RequestGameStartMessage i wd ht # ss) =
     (ss \<noteq> [] \<and> list_all (is_state_with t) ss)"
| "episode_trace t other = False"

text \<open>The attributes of the agent that no game changes.\<close>

definition same_session :: "adapter_agent \<Rightarrow> adapter_agent \<Rightarrow> bool" where
  "same_session a b \<longleftrightarrow>
     index b = index a \<and> agent_type b = agent_type a \<and> is_test_mode b = is_test_mode a
     \<and> layout b = layout a \<and> scores b = scores a"

text \<open>An experiment that has started and can play a game: the noise attribute admits a
  draw, the agent knows the layout, the policies and the results exist, and the results
  hold an entry for every ghost whose behaviours are logged.\<close>

definition ready :: "berkeley_adapter \<Rightarrow> world \<Rightarrow> bool" where
  "ready ad w \<longleftrightarrow>
     0 \<le> noise w \<and> layout (pacman ad) \<noteq> None \<and> policies ad \<noteq> None \<and>
     (\<exists>r. results ad = Some r \<and>
          (ghost_class ad = BehaviorLearningGhostAgent \<longrightarrow>
             (\<forall>g \<in> set (ghosts ad). behavior_count r (ghost_id g) \<noteq> None)))"

section \<open>A concrete experiment\<close>

text \<open>A small layout, game state, environment and argument list on which the operations
  are run: three ghosts in the arguments, a game of one turn, learn\_runs = 3 and
  test\_runs = 2.\<close>

definition demo_layout :: layout where
  "demo_layout = \<lparr>width = 20, height = 11\<rparr>"

definition demo_state :: "int \<Rightarrow> game_state" where
  "demo_state s =
     \<lparr>getPacmanPosition = (1, 2),
      getGhostPositions = [(3, 4), (5, 6)],
      getFood = [[True, False], [False, True]],
      getWalls = [[True, True], [False, False]],
      scaredTimers = [0, 5, 0],
      getLegalActions = (\<lambda>i. [NORTH, STOP]),
      getScore = s\<rparr>"

definition demo_env :: env where
  "demo_env =
     \<lparr>get_berkeley_layout =
        (\<lambda>f. if f = ''pacman/layouts/classic3Ghosts'' then Some demo_layout else None),
      entropy = (\<lambda>n. 7 * n + 3),
      reply_action = (\<lambda>log. if even (length log) then NORTH else EAST),
      run_berkeley_games =
        (\<lambda>k. Turn (demo_state 10) (\<lambda>d. GameOver (demo_state (20 + int k)))),
      get_behavior_count = (\<lambda>k i. [(''pursue'', int k + int i)]),
      stored_policies = (\<lambda>f. None)\<rparr>"

text \<open>The same environment with a layout file for every name.\<close>

definition demo_env_any_layout :: env where
  "demo_env_any_layout = demo_env\<lparr>get_berkeley_layout := (\<lambda>f. Some demo_layout)\<rparr>"

definition demo_args :: "string \<Rightarrow> string \<Rightarrow> init_args" where
  "demo_args pa ga =
     \<lparr>arg_pacman_agent = pa, arg_ghost_agent = ga, arg_num_ghosts = 3, arg_noise = 2,
      arg_policy_file = None, arg_layout_map = ''classic'', arg_learn_runs = 3,
      arg_test_runs = 2, arg_output_file = None, arg_graphics = False\<rparr>"

definition demo_feature_state :: "real \<Rightarrow> feature_state" where
  "demo_feature_state d =
     \<lparr>get_position = (1, 1), get_agent_position = (\<lambda>i. (1, 4)),
      calculate_distance = (\<lambda>p q. d), get_food_distance = d\<rparr>"

text \<open>An agent in the middle of a game, about to be asked for an action.\<close>

definition demo_agent :: "string \<Rightarrow> adapter_agent" where
  "demo_agent t =
     reset_game_data ((BerkeleyAdapterAgent_init t)\<lparr>layout := Some demo_layout\<rparr>)"

section \<open>Properties of the message catalogue\<close>

lemma init_fields_no_msg_type: "''msg_type'' \<notin> set (init_fields c)"
  by (cases c) simp_all

lemma distinct_init_params: "distinct (init_params c)"
  by (cases c) (simp_all add: init_params_def)

lemma map_of_bind_params:
  "distinct ps \<Longrightarrow> p \<in> set ps \<Longrightarrow> p \<notin> set (take (length args) ps) \<Longrightarrow>
   map_of (bind_params c ps args kwargs) p =
     Some (case map_of kwargs p of Some v \<Rightarrow> v | None \<Rightarrow> param_default c p)"
  by (induction c ps args kwargs rule: bind_params.induct) auto

text \<open>
  Claim C4, as stated, fails: a Save message built with an index and no filename is not
  rejected. The constructor returns a \<^verbatim>\<open>SaveMessage\<close> of kind \<^verbatim>\<open>Save\<close> whose \<^verbatim>\<open>filename\<close>
  is \<^verbatim>\<open>None\<close>.
\<close>

theorem save_without_filename_constructed:
  "new_message SaveMessage_cls [] [(''index'', PyInt 1)] =
     Inr \<lparr>msg_class = SaveMessage_cls,
          attrs = [(''msg_type'', PyStr ''Save''), (''index'', PyInt 1),
                   (''filename'', PyNone)]\<rparr>"
  by (simp add: new_message_def accepts_def init_params_def param_default_def SAVE_def)

text \<open>
  Claim C4, amended: the constructors of messages.py validate nothing. Every call that
  binds to the signature of the class returns a message of that class, and every field
  that the call leaves out is stored as \<^verbatim>\<open>None\<close>.
\<close>

theorem new_message_never_validates:
  assumes "accepts c (length args) (map fst kwargs)"
  shows "\<exists>m. new_message c args kwargs = Inr m \<and> msg_class m = c \<and>
             (\<forall>p \<in> set (init_fields c).
                 p \<notin> set (take (length args) (init_params c)) \<longrightarrow>
                 map_of kwargs p = None \<longrightarrow> getattr m p = Inr PyNone)"
proof -
  let ?m = "\<lparr>msg_class = c, attrs = bind_params c (init_params c) args kwargs\<rparr>"
  have new: "new_message c args kwargs = Inr ?m"
    using assms by (simp add: new_message_def)
  have "getattr ?m p = Inr PyNone"
    if "p \<in> set (init_fields c)" "p \<notin> set (take (length args) (init_params c))"
       "map_of kwargs p = None" for p
  proof -
    have "p \<noteq> ''msg_type''" using that(1) init_fields_no_msg_type by metis
    moreover have "p \<in> set (init_params c)" using that(1) by (simp add: init_params_def)
    ultimately show ?thesis
      using map_of_bind_params [OF distinct_init_params _ that(2), of c kwargs] that(3)
      by (simp add: getattr_def param_default_def)
  qed
  with new show ?thesis by auto
qed

theorem new_message_never_validates_witness:
  "accepts SaveMessage_cls (length ([] :: pyval list)) (map fst [(''index'', PyInt 1)])
   \<and> (\<exists>m. new_message SaveMessage_cls [] [(''index'', PyInt 1)] = Inr m
          \<and> msg_class m = SaveMessage_cls \<and> getattr m ''filename'' = Inr PyNone)"
proof -
  have h: "accepts SaveMessage_cls (length ([] :: pyval list)) (map fst [(''index'', PyInt 1)])"
    by (simp add: accepts_def init_params_def)
  from new_message_never_validates [OF h]
  show ?thesis using h by (auto simp: init_params_def)
qed

section \<open>Properties of the features\<close>

text \<open>
  Claim C10: \<^verbatim>\<open>EnemyDistanceFeature\<close> and \<^verbatim>\<open>FoodDistanceFeature\<close> never divide by zero. For
  every state they return a value: 1 when the distance is 0, and the reciprocal of the
  distance otherwise.
\<close>

theorem distance_features_defined:
  "EnemyDistanceFeature_call enemy_id state =
     Inr (let d = calculate_distance state (get_position state)
                    (get_agent_position state enemy_id)
          in if d = 0 then 1 else 1 / d)
   \<and> FoodDistanceFeature_call state =
     Inr (let d = get_food_distance state in if d = 0 then 1 else 1 / d)"
  by (simp add: EnemyDistanceFeature_call_def FoodDistanceFeature_call_def py_div_def Let_def)

theorem distance_features_defined_witness:
  "EnemyDistanceFeature_call 1 (demo_feature_state 0) = Inr 1
   \<and> FoodDistanceFeature_call (demo_feature_state 0) = Inr 1
   \<and> EnemyDistanceFeature_call 1 (demo_feature_state 4) = Inr (1 / 4)
   \<and> FoodDistanceFeature_call (demo_feature_state 4) = Inr (1 / 4)"
  using distance_features_defined [of 1 "demo_feature_state 0"]
        distance_features_defined [of 1 "demo_feature_state 4"]
  by (simp add: demo_feature_state_def)

section \<open>Properties of the state-sending operation\<close>

lemma noise_error_range:
  assumes "0 \<le> noise w"
  shows "\<exists>n. noise_error w u = Inr n \<and> - noise w \<le> n \<and> n \<le> noise w"
proof -
  let ?k = "nat (noise w + 1 - (- noise w))"
  have pos: "0 < ?k" using assms by simp
  have "u mod ?k < ?k" using pos by (rule mod_less_divisor)
  then have "int (u mod ?k) \<le> 2 * noise w" using assms by linarith
  then show ?thesis using assms
    by (simp add: noise_error_def randrange_def)
qed

text \<open>Every offset of the range is drawn for some value of the random source.\<close>

lemma noise_error_onto:
  assumes "- noise w \<le> n" "n \<le> noise w"
  shows "noise_error w (nat (n + noise w)) = Inr n"
proof -
  have "nat (n + noise w) < nat (noise w + 1 - (- noise w))" using assms by linarith
  then show ?thesis using assms by (simp add: noise_error_def randrange_def)
qed

lemma noise_error_zero: "noise w = 0 \<Longrightarrow> noise_error w u = Inr 0"
  by (simp add: noise_error_def randrange_def)

lemma ghost_loop_result:
  assumes "0 \<le> noise w"
  shows "\<exists>ap'. ghost_loop e w i ps ap r = Inr (ap', r + 2 * length ps) \<and>
           (\<forall>k. k \<le> i \<longrightarrow> ap' k = ap k) \<and>
           (\<forall>j < length ps. \<exists>dy dx.
               noise_error w (entropy e (r + 2 * j)) = Inr dy \<and>
               noise_error w (entropy e (r + 2 * j + 1)) = Inr dx \<and>
               ap' (i + j + 1) = Some (snd (ps ! j) + dy, fst (ps ! j) + dx))"
proof (induction ps arbitrary: i ap r)
  case Nil
  then show ?case by simp
next
  case (Cons pos rest)
  obtain n1 where n1: "noise_error w (entropy e r) = Inr n1"
    using noise_error_range [OF assms] by blast
  obtain n2 where n2: "noise_error w (entropy e (r + 1)) = Inr n2"
    using noise_error_range [OF assms] by blast
  let ?ap = "ap(i + 1 \<mapsto> (snd pos + n1, fst pos + n2))"
  obtain ap' where ih:
      "ghost_loop e w (i + 1) rest ?ap (r + 2) = Inr (ap', r + 2 + 2 * length rest)"
      "\<forall>k. k \<le> i + 1 \<longrightarrow> ap' k = ?ap k"
      "\<forall>j < length rest. \<exists>dy dx.
          noise_error w (entropy e (r + 2 + 2 * j)) = Inr dy \<and>
          noise_error w (entropy e (r + 2 + 2 * j + 1)) = Inr dx \<and>
          ap' (i + 1 + j + 1) = Some (snd (rest ! j) + dy, fst (rest ! j) + dx)"
    using Cons.IH [of "i + 1" ?ap "r + 2"] by blast
  have run: "ghost_loop e w i (pos # rest) ap r = Inr (ap', r + 2 * length (pos # rest))"
    using n1 n2 ih(1) by (simp add: Let_def)
  have keep: "\<forall>k. k \<le> i \<longrightarrow> ap' k = ap k"
    using ih(2) by simp
  have each: "\<exists>dy dx.
          noise_error w (entropy e (r + 2 * j)) = Inr dy \<and>
          noise_error w (entropy e (r + 2 * j + 1)) = Inr dx \<and>
          ap' (i + j + 1) = Some (snd ((pos # rest) ! j) + dy, fst ((pos # rest) ! j) + dx)"
    if "j < length (pos # rest)" for j
  proof (cases j)
    case 0
    have "ap' (i + 1) = Some (snd pos + n1, fst pos + n2)" using ih(2) by simp
    with 0 n1 n2 show ?thesis by simp
  next
    case (Suc j')
    then have "j' < length rest" using that by simp
    with ih(3) obtain dy dx where d:
        "noise_error w (entropy e (r + 2 + 2 * j')) = Inr dy"
        "noise_error w (entropy e (r + 2 + 2 * j' + 1)) = Inr dx"
        "ap' (i + 1 + j' + 1) = Some (snd (rest ! j') + dy, fst (rest ! j') + dx)"
      by blast
    from d show ?thesis unfolding Suc by simp
  qed
  from run keep each show ?case by blast
qed

lemma send_state_result:
  assumes "0 \<le> noise w" "game_state a = Some g" "previous_score a = Some s"
    "previous_action a = Some d"
  shows "\<exists>positions.
           ghost_loop e w 0 (getGhostPositions g)
             (Map.empty(pacman_index w \<mapsto> prod.swap (getPacmanPosition g))) (rng_pos w)
             = Inr (positions, rng_pos w + 2 * length (getGhostPositions g)) \<and>
           send_state e a w =
             Inr (reply_action e (sent w @ [StateMessage
                    \<lparr>agent_id = index a, agent_positions = positions,
                     food_positions = grid_positions (getFood g),
                     fragile_agents = fragile_of (scaredTimers g),
                     wall_positions = grid_positions (getWalls g),
                     legal_actions = getLegalActions g (index a),
                     reward = getScore g - s, executed_action = d,
                     test_mode = is_test_mode a\<rparr>]),
                  a\<lparr>previous_score := Some (getScore g)\<rparr>,
                  w\<lparr>rng_pos := rng_pos w + 2 * length (getGhostPositions g),
                    sent := sent w @ [StateMessage
                    \<lparr>agent_id = index a, agent_positions = positions,
                     food_positions = grid_positions (getFood g),
                     fragile_agents = fragile_of (scaredTimers g),
                     wall_positions = grid_positions (getWalls g),
                     legal_actions = getLegalActions g (index a),
                     reward = getScore g - s, executed_action = d,
                     test_mode = is_test_mode a\<rparr>]\<rparr>)"
proof -
  obtain positions where loop:
    "ghost_loop e w 0 (getGhostPositions g)
       (Map.empty(pacman_index w \<mapsto> prod.swap (getPacmanPosition g))) (rng_pos w)
       = Inr (positions, rng_pos w + 2 * length (getGhostPositions g))"
    using ghost_loop_result [OF assms(1)] by blast
  show ?thesis
    using loop assms(2-4)
    by (simp add: send_state_def calculate_reward_def communicate_def Let_def)
qed

text \<open>What a successful \<^verbatim>\<open>send_state\<close> leaves behind, in the form the later proofs use.\<close>

lemma send_state_effect:
  assumes "0 \<le> noise w" "game_state a = Some g" "previous_score a = Some s"
    "previous_action a = Some d"
  shows "\<exists>act w1 m.
           send_state e a w = Inr (act, a\<lparr>previous_score := Some (getScore g)\<rparr>, w1) \<and>
           sent w1 = sent w @ [StateMessage m] \<and>
           reward m = getScore g - s \<and> test_mode m = is_test_mode a \<and>
           executed_action m = d \<and>
           noise w1 = noise w \<and> pacman_index w1 = pacman_index w \<and>
           games_run w1 = games_run w"
proof -
  from send_state_result [OF assms, of e] obtain positions where
    run: "send_state e a w =
             Inr (reply_action e (sent w @ [StateMessage
                    \<lparr>agent_id = index a, agent_positions = positions,
                     food_positions = grid_positions (getFood g),
                     fragile_agents = fragile_of (scaredTimers g),
                     wall_positions = grid_positions (getWalls g),
                     legal_actions = getLegalActions g (index a),
                     reward = getScore g - s, executed_action = d,
                     test_mode = is_test_mode a\<rparr>]),
                  a\<lparr>previous_score := Some (getScore g)\<rparr>,
                  w\<lparr>rng_pos := rng_pos w + 2 * length (getGhostPositions g),
                    sent := sent w @ [StateMessage
                    \<lparr>agent_id = index a, agent_positions = positions,
                     food_positions = grid_positions (getFood g),
                     fragile_agents = fragile_of (scaredTimers g),
                     wall_positions = grid_positions (getWalls g),
                     legal_actions = getLegalActions g (index a),
                     reward = getScore g - s, executed_action = d,
                     test_mode = is_test_mode a\<rparr>]\<rparr>)"
    by blast
  define m where "m = \<lparr>agent_id = index a, agent_positions = positions,
                     food_positions = grid_positions (getFood g),
                     fragile_agents = fragile_of (scaredTimers g),
                     wall_positions = grid_positions (getWalls g),
                     legal_actions = getLegalActions g (index a),
                     reward = getScore g - s, executed_action = d,
                     test_mode = is_test_mode a\<rparr>"
  define w1 where "w1 = w\<lparr>rng_pos := rng_pos w + 2 * length (getGhostPositions g),
                          sent := sent w @ [StateMessage m]\<rparr>"
  have r: "send_state e a w =
      Inr (reply_action e (sent w @ [StateMessage m]),
           a\<lparr>previous_score := Some (getScore g)\<rparr>, w1)"
    using run by (simp add: m_def w1_def)
  have f: "sent w1 = sent w @ [StateMessage m]" "reward m = getScore g - s"
    "test_mode m = is_test_mode a" "executed_action m = d" "noise w1 = noise w"
    "pacman_index w1 = pacman_index w" "games_run w1 = games_run w"
    by (simp_all add: m_def w1_def)
  from r f show ?thesis by blast
qed

text \<open>
  Claim C2: for two consecutive calls of \<^verbatim>\<open>send_state\<close> within one game, at game states
  with scores \<open>s1\<close> and then \<open>s2\<close>, the reward of the StateMessage built by the second
  call is \<open>s2 - s1\<close>, and each call sets \<^verbatim>\<open>previous_score\<close> to the score it saw. Both
  calls return.
\<close>

theorem reward_is_score_difference:
  assumes "0 \<le> noise w" "previous_score a = Some s0" "previous_action a = Some d0"
  shows "\<exists>act1 a1 w1 act2 a2 w2 m2.
           send_state e (a\<lparr>game_state := Some g1\<rparr>) w = Inr (act1, a1, w1) \<and>
           previous_score a1 = Some (getScore g1) \<and>
           send_state e (a1\<lparr>game_state := Some g2\<rparr>) w1 = Inr (act2, a2, w2) \<and>
           sent w2 = sent w1 @ [StateMessage m2] \<and>
           reward m2 = getScore g2 - getScore g1 \<and>
           previous_score a2 = Some (getScore g2)"
proof -
  let ?a = "a\<lparr>game_state := Some g1\<rparr>"
  let ?a1 = "?a\<lparr>previous_score := Some (getScore g1)\<rparr>"
  obtain act1 w1 where first: "send_state e ?a w = Inr (act1, ?a1, w1)"
      and w1: "noise w1 = noise w"
    using send_state_effect [of w ?a g1 s0 d0 e] assms by auto
  let ?b = "?a1\<lparr>game_state := Some g2\<rparr>"
  let ?a2 = "?b\<lparr>previous_score := Some (getScore g2)\<rparr>"
  have "0 \<le> noise w1" using w1 assms(1) by simp
  moreover have "game_state ?b = Some g2" "previous_score ?b = Some (getScore g1)"
    "previous_action ?b = Some d0"
    using assms by simp_all
  ultimately obtain act2 w2 m2 where
      second: "send_state e ?b w1 = Inr (act2, ?a2, w2)"
      and log: "sent w2 = sent w1 @ [StateMessage m2]"
      and rew: "reward m2 = getScore g2 - getScore g1"
    using send_state_effect [of w1 ?b g2 "getScore g1" d0 e] by blast
  have p1: "previous_score ?a1 = Some (getScore g1)" by simp
  have p2: "previous_score ?a2 = Some (getScore g2)" by simp
  from first p1 second log rew p2 show ?thesis by blast
qed

theorem reward_is_score_difference_witness:
  "0 \<le> noise initial_world \<and> previous_score (demo_agent ''random'') = Some 0 \<and>
   previous_action (demo_agent ''random'') = Some NORTH \<and>
   (\<exists>act1 a1 w1 act2 a2 w2 m2.
       send_state demo_env ((demo_agent ''random'')\<lparr>game_state := Some (demo_state 10)\<rparr>)
         initial_world = Inr (act1, a1, w1) \<and>
       previous_score a1 = Some 10 \<and>
       send_state demo_env (a1\<lparr>game_state := Some (demo_state 25)\<rparr>) w1
         = Inr (act2, a2, w2) \<and>
       sent w2 = sent w1 @ [StateMessage m2] \<and> reward m2 = 15 \<and>
       previous_score a2 = Some 25)"
proof -
  have h: "0 \<le> noise initial_world" "previous_score (demo_agent ''random'') = Some 0"
    "previous_action (demo_agent ''random'') = Some NORTH"
    by (simp_all add: initial_world_def demo_agent_def reset_game_data_def)
  from reward_is_score_difference [OF h, of demo_env "demo_state 10" "demo_state 25"]
  show ?thesis using h by (simp add: demo_state_def)
qed

text \<open>
  Claim C3: with the noise attribute \<open>N \<ge> 0\<close>, the StateMessage that \<^verbatim>\<open>send_state\<close>
  builds reports Pac-Man's own position exactly, and reports ghost \<open>j\<close> at its true
  position moved by an offset in \<open>[-N, N]\<close> on each coordinate; the two offsets come from
  two separate draws of \<^verbatim>\<open>_noise_error\<close>.
\<close>

theorem ghost_positions_within_noise:
  assumes "0 \<le> noise w" "pacman_index w = 0" "game_state a = Some g"
    "previous_score a = Some s" "previous_action a = Some d"
  shows "\<exists>act a1 w1 m.
           send_state e a w = Inr (act, a1, w1) \<and>
           sent w1 = sent w @ [StateMessage m] \<and>
           agent_positions m 0 = Some (prod.swap (getPacmanPosition g)) \<and>
           (\<forall>j < length (getGhostPositions g). \<exists>dy dx.
               noise_error w (entropy e (rng_pos w + 2 * j)) = Inr dy \<and>
               noise_error w (entropy e (rng_pos w + 2 * j + 1)) = Inr dx \<and>
               agent_positions m (j + 1) =
                 Some (snd (getGhostPositions g ! j) + dy, fst (getGhostPositions g ! j) + dx) \<and>
               - noise w \<le> dy \<and> dy \<le> noise w \<and> - noise w \<le> dx \<and> dx \<le> noise w)"
proof -
  let ?ps = "getGhostPositions g"
  let ?ap = "Map.empty(pacman_index w \<mapsto> prod.swap (getPacmanPosition g))"
  obtain positions where loop:
      "ghost_loop e w 0 ?ps ?ap (rng_pos w) = Inr (positions, rng_pos w + 2 * length ?ps)"
      and keep: "\<forall>k. k \<le> 0 \<longrightarrow> positions k = ?ap k"
      and each: "\<forall>j < length ?ps. \<exists>dy dx.
          noise_error w (entropy e (rng_pos w + 2 * j)) = Inr dy \<and>
          noise_error w (entropy e (rng_pos w + 2 * j + 1)) = Inr dx \<and>
          positions (0 + j + 1) = Some (snd (?ps ! j) + dy, fst (?ps ! j) + dx)"
    using ghost_loop_result [OF assms(1), of e 0 ?ps ?ap "rng_pos w"] by blast
  define m where "m = \<lparr>agent_id = index a, agent_positions = positions,
             food_positions = grid_positions (getFood g),
             fragile_agents = fragile_of (scaredTimers g),
             wall_positions = grid_positions (getWalls g),
             legal_actions = getLegalActions g (index a),
             reward = getScore g - s, executed_action = d,
             test_mode = is_test_mode a\<rparr>"
  define w1 where "w1 = w\<lparr>rng_pos := rng_pos w + 2 * length ?ps,
                          sent := sent w @ [StateMessage m]\<rparr>"
  have run: "send_state e a w =
      Inr (reply_action e (sent w @ [StateMessage m]),
           a\<lparr>previous_score := Some (getScore g)\<rparr>, w1)"
    using send_state_result [OF assms(1,3,4,5), of e] loop by (simp add: m_def w1_def)
  have log: "sent w1 = sent w @ [StateMessage m]" by (simp add: w1_def)
  have own: "agent_positions m 0 = Some (prod.swap (getPacmanPosition g))"
    using keep assms(2) by (simp add: m_def)
  have ghosts: "\<forall>j < length ?ps. \<exists>dy dx.
      noise_error w (entropy e (rng_pos w + 2 * j)) = Inr dy \<and>
      noise_error w (entropy e (rng_pos w + 2 * j + 1)) = Inr dx \<and>
      agent_positions m (j + 1) = Some (snd (?ps ! j) + dy, fst (?ps ! j) + dx) \<and>
      - noise w \<le> dy \<and> dy \<le> noise w \<and> - noise w \<le> dx \<and> dx \<le> noise w"
  proof (intro allI impI)
    fix j assume "j < length ?ps"
    with each obtain dy dx where d:
        "noise_error w (entropy e (rng_pos w + 2 * j)) = Inr dy"
        "noise_error w (entropy e (rng_pos w + 2 * j + 1)) = Inr dx"
        "positions (0 + j + 1) = Some (snd (?ps ! j) + dy, fst (?ps ! j) + dx)"
      by blast
    have "- noise w \<le> dy \<and> dy \<le> noise w"
      using noise_error_range [OF assms(1), of "entropy e (rng_pos w + 2 * j)"] d(1) by auto
    moreover have "- noise w \<le> dx \<and> dx \<le> noise w"
      using noise_error_range [OF assms(1), of "entropy e (rng_pos w + 2 * j + 1)"] d(2)
      by auto
    moreover have "agent_positions m (j + 1) = Some (snd (?ps ! j) + dy, fst (?ps ! j) + dx)"
      using d(3) by (simp add: m_def)
    ultimately show "\<exists>dy dx.
      noise_error w (entropy e (rng_pos w + 2 * j)) = Inr dy \<and>
      noise_error w (entropy e (rng_pos w + 2 * j + 1)) = Inr dx \<and>
      agent_positions m (j + 1) = Some (snd (?ps ! j) + dy, fst (?ps ! j) + dx) \<and>
      - noise w \<le> dy \<and> dy \<le> noise w \<and> - noise w \<le> dx \<and> dx \<le> noise w"
      using d(1,2) by blast
  qed
  from run log own ghosts show ?thesis by blast
qed

theorem ghost_positions_within_noise_witness:
  "0 \<le> noise (initial_world\<lparr>noise := 2\<rparr>) \<and>
   (\<exists>act a1 w1 m.
       send_state demo_env ((demo_agent ''random'')\<lparr>game_state := Some (demo_state 10)\<rparr>)
         (initial_world\<lparr>noise := 2\<rparr>) = Inr (act, a1, w1) \<and>
       sent w1 = [StateMessage m] \<and>
       agent_positions m 0 = Some (2, 1) \<and>
       agent_positions m 1 = Some (5, 1) \<and>
       agent_positions m 2 = Some (6, 7))"
proof -
  let ?w = "initial_world\<lparr>noise := 2\<rparr>"
  let ?a = "(demo_agent ''random'')\<lparr>game_state := Some (demo_state 10)\<rparr>"
  have h: "0 \<le> noise ?w" "pacman_index ?w = 0" "game_state ?a = Some (demo_state 10)"
    "previous_score ?a = Some 0" "previous_action ?a = Some NORTH"
    by (simp_all add: initial_world_def demo_agent_def reset_game_data_def)
  from ghost_positions_within_noise [OF h, of demo_env]
  obtain act a1 w1 m where
      run: "send_state demo_env ?a ?w = Inr (act, a1, w1)"
      and log: "sent w1 = sent ?w @ [StateMessage m]"
      and own: "agent_positions m 0 = Some (prod.swap (getPacmanPosition (demo_state 10)))"
      and each: "\<forall>j < length (getGhostPositions (demo_state 10)). \<exists>dy dx.
               noise_error ?w (entropy demo_env (rng_pos ?w + 2 * j)) = Inr dy \<and>
               noise_error ?w (entropy demo_env (rng_pos ?w + 2 * j + 1)) = Inr dx \<and>
               agent_positions m (j + 1) =
                 Some (snd (getGhostPositions (demo_state 10) ! j) + dy,
                       fst (getGhostPositions (demo_state 10) ! j) + dx) \<and>
               - noise ?w \<le> dy \<and> dy \<le> noise ?w \<and> - noise ?w \<le> dx \<and> dx \<le> noise ?w"
    by blast
  have g1: "agent_positions m 1 = Some (5, 1)"
    using each [rule_format, of 0]
    by (auto simp: demo_state_def demo_env_def initial_world_def noise_error_def randrange_def)
  have g2: "agent_positions m 2 = Some (6, 7)"
    using each [rule_format, of 1]
    by (auto simp: demo_state_def demo_env_def initial_world_def noise_error_def randrange_def
          numeral_2_eq_2)
  have "sent w1 = [StateMessage m]" using log by (simp add: initial_world_def)
  moreover have "agent_positions m 0 = Some (2, 1)" using own by (simp add: demo_state_def)
  ultimately show ?thesis using run g1 g2 h(1) by blast
qed

section \<open>The messages the adapter agent sends\<close>


lemma send_state_frame:
  assumes "send_state e a w = Inr (act, a1, w1)"
  shows "\<exists>m. sent w1 = sent w @ [StateMessage m] \<and> test_mode m = is_test_mode a"
    and "noise w1 = noise w" and "pacman_index w1 = pacman_index w"
    and "games_run w1 = games_run w"
    and "a1 = a\<lparr>previous_score := previous_score a1\<rparr>"
  using assms
  by (auto simp: send_state_def communicate_def calculate_reward_def Let_def
      split: option.splits sum.splits)





section \<open>Calls on the ghost agents\<close>

text \<open>A call on a ghost agent touches neither the class attributes, nor the channel of the
  Pac-Man agent, nor the random source, nor the count of games.\<close>

lemma call_ghost_frame [simp]:
  "noise (call_ghost i c w) = noise w"
  "pacman_index (call_ghost i c w) = pacman_index w"
  "sent (call_ghost i c w) = sent w"
  "rng_pos (call_ghost i c w) = rng_pos w"
  "games_run (call_ghost i c w) = games_run w"
  by (simp_all add: call_ghost_def)

lemma call_ghosts_frame [simp]:
  "noise (call_ghosts c gs w) = noise w"
  "pacman_index (call_ghosts c gs w) = pacman_index w"
  "sent (call_ghosts c gs w) = sent w"
  "rng_pos (call_ghosts c gs w) = rng_pos w"
  "games_run (call_ghosts c gs w) = games_run w"
  by (induction gs arbitrary: w; simp)+

lemma call_ghosts_calls:
  "ghost_calls (call_ghosts c gs w) = ghost_calls w @ map (\<lambda>g. (ghost_id g, c)) gs"
  by (induction gs arbitrary: w) (simp_all add: call_ghost_def)

lemma load_ghost_policies_frame:
  assumes "load_ghost_policies ps gs w = Inr w1"
  shows "noise w1 = noise w \<and> pacman_index w1 = pacman_index w \<and> sent w1 = sent w \<and>
         rng_pos w1 = rng_pos w \<and> games_run w1 = games_run w"
  using assms
  by (induction gs arbitrary: w) (auto split: option.splits)

lemma load_ghost_policies_ok:
  assumes "ps \<noteq> None"
  shows "\<exists>w1. load_ghost_policies ps gs w = Inr w1"
  using assms
  by (induction gs arbitrary: w) (auto split: option.splits)

lemma create_ghosts_result:
  assumes "create_ghosts gc ids gs w = (gs1, w1)"
  shows "noise w1 = noise w \<and> pacman_index w1 = pacman_index w \<and> sent w1 = sent w \<and>
         rng_pos w1 = rng_pos w \<and> games_run w1 = games_run w \<and>
         map ghost_id gs1 = map ghost_id gs @ map Suc ids \<and>
         ghost_calls w1 = ghost_calls w @ map (\<lambda>i. (Suc i, GhostRegister ''ghost'' gc)) ids"
  using assms
proof (induction ids arbitrary: gs w)
  case Nil
  then show ?case by simp
next
  case (Cons i rest)
  let ?g = "(GhostAdapterAgent (i + 1))\<lparr>ghost_registered := Some (''ghost'', gc)\<rparr>"
  let ?w = "call_ghost (i + 1) (GhostRegister ''ghost'' gc) w"
  have "create_ghosts gc rest (gs @ [?g]) ?w = (gs1, w1)"
    using Cons.prems by (simp add: ghost_register_def GhostAdapterAgent_def)
  from Cons.IH [OF this] show ?case
    by (simp add: GhostAdapterAgent_def call_ghost_def)
qed

section \<open>Construction of the experiment\<close>

text \<open>The failures of the constructor that come from its checks.\<close>

lemma BerkeleyAdapter_init_fails:
  assumes "get_berkeley_layout e (layout_file args) = None
           \<or> \<not> (1 \<le> arg_num_ghosts args \<and> arg_num_ghosts args \<le> 4)
           \<or> arg_ghost_agent args \<notin> {''random'', ''ai''}
           \<or> \<not> 0 < arg_learn_runs args
           \<or> \<not> 0 < arg_test_runs args"
  shows "isl (BerkeleyAdapter_init e args w)"
  using assms
  by (auto simp: BerkeleyAdapter_init_def Let_def split: option.splits prod.splits sum.splits)

lemma BerkeleyAdapter_init_succeeds:
  assumes "get_berkeley_layout e (layout_file args) \<noteq> None"
    "1 \<le> arg_num_ghosts args" "arg_num_ghosts args \<le> 4"
    "arg_ghost_agent args \<in> {''random'', ''ai''}"
    "0 < arg_learn_runs args" "0 < arg_test_runs args"
    "\<not> isl (str_if_truthy (arg_policy_file args))"
    "\<not> isl (str_if_truthy (arg_output_file args))"
  shows "\<not> isl (BerkeleyAdapter_init e args w)"
  using assms
  by (auto simp: BerkeleyAdapter_init_def Let_def split: option.splits prod.splits sum.splits)

lemma BerkeleyAdapter_init_Inr:
  assumes "BerkeleyAdapter_init e args w = Inr (ad, w1)"
  shows "noise w1 = noise w" and "results ad = None" and "policies ad = None"
    and "pacman ad = BerkeleyAdapterAgent_init (arg_pacman_agent args)"
    and "learn_runs ad = arg_learn_runs args" and "test_runs ad = arg_test_runs args"
    and "get_berkeley_layout e (layout_file args) = Some (adapter_layout ad)"
    and "games_run w1 = games_run w" and "sent w1 = sent w"
    and "pacman_index w1 = pacman_index w" and "rng_pos w1 = rng_pos w"
    and "ghost_calls w1 = ghost_calls w
           @ map (\<lambda>i. (Suc i, GhostRegister ''ghost'' (ghost_class ad)))
                 [0..<nat (arg_num_ghosts args)]"
    and "str_if_truthy (arg_policy_file args) = Inr (policy_file ad)"
proof -
  from assms obtain lay gc gs pf out where
      lay: "get_berkeley_layout e (layout_file args) = Some lay"
      and pf: "str_if_truthy (arg_policy_file args) = Inr pf"
      and cg: "create_ghosts gc [0..<nat (arg_num_ghosts args)] [] w = (gs, w1)"
      and ad: "ad = \<lparr>adapter_layout = lay,
                     pacman = BerkeleyAdapterAgent_init (arg_pacman_agent args),
                     num_ghosts = arg_num_ghosts args, ghost_class = gc, ghosts = gs,
                     policy_file = pf, learn_runs = arg_learn_runs args,
                     test_runs = arg_test_runs args, output_file = out,
                     graphics = arg_graphics args, results = None, policies = None\<rparr>"
    by (auto simp: BerkeleyAdapter_init_def Let_def
        split: option.splits prod.splits sum.splits if_splits)
  note c = create_ghosts_result [OF cg]
  show "noise w1 = noise w" "games_run w1 = games_run w" "sent w1 = sent w"
    "pacman_index w1 = pacman_index w" "rng_pos w1 = rng_pos w"
    using c by simp_all
  show "results ad = None" "policies ad = None"
    "pacman ad = BerkeleyAdapterAgent_init (arg_pacman_agent args)"
    "learn_runs ad = arg_learn_runs args" "test_runs ad = arg_test_runs args"
    using ad by simp_all
  show "get_berkeley_layout e (layout_file args) = Some (adapter_layout ad)"
    using ad lay by simp
  show "ghost_calls w1 = ghost_calls w
           @ map (\<lambda>i. (Suc i, GhostRegister ''ghost'' (ghost_class ad)))
                 [0..<nat (arg_num_ghosts args)]"
    using c ad by simp
  show "str_if_truthy (arg_policy_file args) = Inr (policy_file ad)"
    using ad pf by simp
qed

text \<open>
  Claim C6, as stated, fails in its last part: with a resolvable layout, three ghosts and
  positive run counts, all the checks the claim lists pass, yet construction fails when
  the ghost agent is neither \<^verbatim>\<open>random\<close> nor \<^verbatim>\<open>ai\<close>.
\<close>

theorem unknown_ghost_agent_rejected:
  "get_berkeley_layout demo_env (layout_file (demo_args ''random'' ''bogus'')) = Some demo_layout
   \<and> arg_num_ghosts (demo_args ''random'' ''bogus'') = 3
   \<and> arg_learn_runs (demo_args ''random'' ''bogus'') = 3
   \<and> arg_test_runs (demo_args ''random'' ''bogus'') = 2
   \<and> BerkeleyAdapter_init demo_env (demo_args ''random'' ''bogus'') initial_world
       = Inl (ValueError ''Ghost agent must be ai or random.'')"
  by (simp add: BerkeleyAdapter_init_def layout_file_def demo_args_def demo_env_def
      str_int_def Let_def)

text \<open>
  The constructor has one more way to fail: it applies \<^verbatim>\<open>str\<close> to the name of the policy
  file, and the name the command line builds is a unicode string, which \<^verbatim>\<open>str\<close> rejects
  when it holds a character outside ASCII.
\<close>

lemma unicode_policy_file_raises:
  assumes "get_berkeley_layout e (layout_file args) \<noteq> None"
    "1 \<le> arg_num_ghosts args" "arg_num_ghosts args \<le> 4"
    "arg_ghost_agent args \<in> {''random'', ''ai''}"
    "arg_policy_file args = Some (Unicode [112, 233])"
  shows "BerkeleyAdapter_init e args w = Inl UnicodeEncodeError"
  using assms
  by (auto simp: BerkeleyAdapter_init_def Let_def str_if_truthy_def
      split: option.splits prod.splits sum.splits)

text \<open>
  Claim C6, amended: construction fails whenever the layout file does not resolve, the
  number of ghosts is outside 1..4, the number of learning or of test runs is not positive,
  or the ghost agent is neither \<^verbatim>\<open>random\<close> nor \<^verbatim>\<open>ai\<close>; the whole run (construct, start,
  execute) then ends with the exception of the constructor, whatever the simulator, the
  responder, the random source, the counts of the ghosts and the stored policies are.
  When all these checks pass, and \<^verbatim>\<open>str\<close> accepts the names of the policy and output
  files that are given, construction succeeds and no game has been played yet: the
  simulator has not run, no results exist and the Pac-Man agent has no score.
\<close>

theorem BerkeleyAdapter_init_validates:
  "((get_berkeley_layout e (layout_file args) = None
       \<or> \<not> (1 \<le> arg_num_ghosts args \<and> arg_num_ghosts args \<le> 4)
       \<or> arg_ghost_agent args \<notin> {''random'', ''ai''}
       \<or> \<not> 0 < arg_learn_runs args
       \<or> \<not> 0 < arg_test_runs args)
      \<longrightarrow> (\<exists>err. BerkeleyAdapter_init e args w = Inl err \<and> run_experiment e args w = Inl err \<and>
                 run_experiment
                   (e\<lparr>entropy := en, reply_action := ra, run_berkeley_games := sim,
                      get_behavior_count := bc, stored_policies := sp\<rparr>) args w = Inl err))
   \<and> (get_berkeley_layout e (layout_file args) \<noteq> None
        \<and> 1 \<le> arg_num_ghosts args \<and> arg_num_ghosts args \<le> 4
        \<and> arg_ghost_agent args \<in> {''random'', ''ai''}
        \<and> 0 < arg_learn_runs args \<and> 0 < arg_test_runs args
        \<and> \<not> isl (str_if_truthy (arg_policy_file args))
        \<and> \<not> isl (str_if_truthy (arg_output_file args))
      \<longrightarrow> (\<exists>ad w1. BerkeleyAdapter_init e args w = Inr (ad, w1) \<and>
                   games_run w1 = games_run w \<and> results ad = None \<and>
                   scores (pacman ad) = []))"
proof (intro conjI impI)
  let ?e = "e\<lparr>entropy := en, reply_action := ra, run_berkeley_games := sim,
               get_behavior_count := bc, stored_policies := sp\<rparr>"
  assume "get_berkeley_layout e (layout_file args) = None
       \<or> \<not> (1 \<le> arg_num_ghosts args \<and> arg_num_ghosts args \<le> 4)
       \<or> arg_ghost_agent args \<notin> {''random'', ''ai''}
       \<or> \<not> 0 < arg_learn_runs args
       \<or> \<not> 0 < arg_test_runs args"
  then have "isl (BerkeleyAdapter_init e args w)" by (rule BerkeleyAdapter_init_fails)
  then obtain err where err: "BerkeleyAdapter_init e args w = Inl err"
    by (cases "BerkeleyAdapter_init e args w") auto
  have "BerkeleyAdapter_init ?e args w = BerkeleyAdapter_init e args w"
    by (simp add: BerkeleyAdapter_init_def)
  with err have "run_experiment e args w = Inl err" "run_experiment ?e args w = Inl err"
    by (simp_all add: run_experiment_def build_and_start_def)
  with err show "\<exists>err. BerkeleyAdapter_init e args w = Inl err \<and>
      run_experiment e args w = Inl err \<and> run_experiment ?e args w = Inl err"
    by blast
next
  assume ok: "get_berkeley_layout e (layout_file args) \<noteq> None
        \<and> 1 \<le> arg_num_ghosts args \<and> arg_num_ghosts args \<le> 4
        \<and> arg_ghost_agent args \<in> {''random'', ''ai''}
        \<and> 0 < arg_learn_runs args \<and> 0 < arg_test_runs args
        \<and> \<not> isl (str_if_truthy (arg_policy_file args))
        \<and> \<not> isl (str_if_truthy (arg_output_file args))"
  then have "\<not> isl (BerkeleyAdapter_init e args w)"
    using BerkeleyAdapter_init_succeeds [of e args w] by blast
  then obtain ad w1 where r: "BerkeleyAdapter_init e args w = Inr (ad, w1)"
    by (cases "BerkeleyAdapter_init e args w") auto
  note i = BerkeleyAdapter_init_Inr [OF r]
  have "scores (pacman ad) = []" using i(4) by (simp add: BerkeleyAdapterAgent_init_def)
  with r i(2,8) show "\<exists>ad w1. BerkeleyAdapter_init e args w = Inr (ad, w1) \<and>
                   games_run w1 = games_run w \<and> results ad = None \<and>
                   scores (pacman ad) = []"
    by blast
qed

theorem BerkeleyAdapter_init_validates_witness:
  "(\<exists>ad w1. BerkeleyAdapter_init demo_env (demo_args ''random'' ''ai'') initial_world
                 = Inr (ad, w1)
        \<and> games_run w1 = 0 \<and> results ad = None \<and> scores (pacman ad) = [])
   \<and> get_berkeley_layout demo_env_any_layout
        (layout_file ((demo_args ''random'' ''ai'')\<lparr>arg_num_ghosts := 5\<rparr>)) = Some demo_layout
   \<and> isl (BerkeleyAdapter_init demo_env_any_layout
            ((demo_args ''random'' ''ai'')\<lparr>arg_num_ghosts := 5\<rparr>) initial_world)
   \<and> isl (BerkeleyAdapter_init demo_env
            ((demo_args ''random'' ''ai'')\<lparr>arg_layout_map := ''nowhere''\<rparr>) initial_world)
   \<and> isl (BerkeleyAdapter_init demo_env (demo_args ''random'' ''bogus'') initial_world)
   \<and> isl (BerkeleyAdapter_init demo_env
            ((demo_args ''random'' ''ai'')\<lparr>arg_learn_runs := 0\<rparr>) initial_world)
   \<and> isl (run_experiment demo_env
            ((demo_args ''random'' ''ai'')\<lparr>arg_test_runs := 0\<rparr>) initial_world)
   \<and> isl (run_experiment (demo_env\<lparr>run_berkeley_games := (\<lambda>k. GameOver (demo_state 0))\<rparr>)
            ((demo_args ''random'' ''ai'')\<lparr>arg_test_runs := 0\<rparr>) initial_world)"
proof -
  let ?args = "demo_args ''random'' ''ai''"
  let ?sim = "\<lambda>k :: nat. GameOver (demo_state 0)"
  have ok: "get_berkeley_layout demo_env (layout_file ?args) \<noteq> None
        \<and> 1 \<le> arg_num_ghosts ?args \<and> arg_num_ghosts ?args \<le> 4
        \<and> arg_ghost_agent ?args \<in> {''random'', ''ai''}
        \<and> 0 < arg_learn_runs ?args \<and> 0 < arg_test_runs ?args
        \<and> \<not> isl (str_if_truthy (arg_policy_file ?args))
        \<and> \<not> isl (str_if_truthy (arg_output_file ?args))"
    by (simp add: layout_file_def demo_args_def demo_env_def str_int_def str_if_truthy_def)
  have 1: "\<exists>ad w1. BerkeleyAdapter_init demo_env ?args initial_world = Inr (ad, w1)
        \<and> games_run w1 = 0 \<and> results ad = None \<and> scores (pacman ad) = []"
    using BerkeleyAdapter_init_validates
      [where e = demo_env and args = ?args and w = initial_world, THEN conjunct2, THEN mp, OF ok]
    by (simp add: initial_world_def)
  have fails: "isl (BerkeleyAdapter_init e' a' initial_world)
        \<and> isl (run_experiment e' a' initial_world)
        \<and> isl (run_experiment (e'\<lparr>run_berkeley_games := ?sim\<rparr>) a' initial_world)"
    if "get_berkeley_layout e' (layout_file a') = None
       \<or> \<not> (1 \<le> arg_num_ghosts a' \<and> arg_num_ghosts a' \<le> 4)
       \<or> arg_ghost_agent a' \<notin> {''random'', ''ai''}
       \<or> \<not> 0 < arg_learn_runs a'
       \<or> \<not> 0 < arg_test_runs a'" for e' a'
  proof -
    have "e'\<lparr>entropy := entropy e', reply_action := reply_action e',
             run_berkeley_games := ?sim, get_behavior_count := get_behavior_count e',
             stored_policies := stored_policies e'\<rparr> = e'\<lparr>run_berkeley_games := ?sim\<rparr>"
      by simp
    with BerkeleyAdapter_init_validates
      [where e = e' and args = a' and w = initial_world and en = "entropy e'"
        and ra = "reply_action e'" and sim = ?sim and bc = "get_behavior_count e'"
        and sp = "stored_policies e'", THEN conjunct1, THEN mp, OF that]
    show ?thesis by auto
  qed
  have 2: "get_berkeley_layout demo_env_any_layout
        (layout_file (?args\<lparr>arg_num_ghosts := 5\<rparr>)) = Some demo_layout"
    by (simp add: demo_env_any_layout_def)
  have 3: "isl (BerkeleyAdapter_init demo_env_any_layout (?args\<lparr>arg_num_ghosts := 5\<rparr>)
                 initial_world)"
    using fails [of demo_env_any_layout "?args\<lparr>arg_num_ghosts := 5\<rparr>"] by simp
  have 4: "isl (BerkeleyAdapter_init demo_env (?args\<lparr>arg_layout_map := ''nowhere''\<rparr>)
                 initial_world)"
    using fails [of demo_env "?args\<lparr>arg_layout_map := ''nowhere''\<rparr>"]
    by (simp add: layout_file_def demo_args_def demo_env_def str_int_def)
  have 5: "isl (BerkeleyAdapter_init demo_env (demo_args ''random'' ''bogus'') initial_world)"
    using fails [of demo_env "demo_args ''random'' ''bogus''"] by (simp add: demo_args_def)
  have 6: "isl (BerkeleyAdapter_init demo_env (?args\<lparr>arg_learn_runs := 0\<rparr>) initial_world)"
    using fails [of demo_env "?args\<lparr>arg_learn_runs := 0\<rparr>"] by simp
  have 7: "isl (run_experiment demo_env (?args\<lparr>arg_test_runs := 0\<rparr>) initial_world)"
    and 8: "isl (run_experiment (demo_env\<lparr>run_berkeley_games := ?sim\<rparr>)
                  (?args\<lparr>arg_test_runs := 0\<rparr>) initial_world)"
    using fails [of demo_env "?args\<lparr>arg_test_runs := 0\<rparr>"] by simp_all
  from 1 2 3 4 5 6 7 8 show ?thesis by blast
qed

section \<open>Validation of the agent types\<close>

lemma register_unknown:
  assumes "agent_type a \<notin> {''random'', ''random2'', ''ai'', ''eater''}"
  shows "register a w = Inl (ValueError ''Pac-Man agent must be ai, random, random2 or eater.'')"
  using assms by (simp add: register_def)

lemma start_experiment_unknown:
  assumes "agent_type a \<notin> {''random'', ''random2'', ''ai'', ''eater''}"
  shows "isl (start_experiment a w)"
  using register_unknown [OF assms]
  by (simp add: start_experiment_def split: sum.splits)

lemma start_unknown:
  assumes "agent_type (pacman ad) \<notin> {''random'', ''random2'', ''ai'', ''eater''}"
  shows "isl (start e ad w)"
proof -
  let ?pm = "(pacman ad)\<lparr>policy := load_policies_from_file e (policy_file ad) (index (pacman ad)),
                          layout := Some (adapter_layout ad)\<rparr>"
  have "agent_type ?pm \<notin> {''random'', ''random2'', ''ai'', ''eater''}" using assms by simp
  then have "isl (start_experiment ?pm (call_ghosts GhostInitialize (ghosts ad) w))"
    by (rule start_experiment_unknown)
  then show ?thesis by (auto simp: start_def Let_def split: sum.splits)
qed

lemma start_unknown_error:
  assumes "agent_type (pacman ad) \<notin> {''random'', ''random2'', ''ai'', ''eater''}"
    "policy_file ad = None"
  shows "start e ad w = Inl (ValueError ''Pac-Man agent must be ai, random, random2 or eater.'')"
proof -
  let ?pm = "(pacman ad)\<lparr>policy := None, layout := Some (adapter_layout ad)\<rparr>"
  have "agent_type ?pm \<notin> {''random'', ''random2'', ''ai'', ''eater''}" using assms(1) by simp
  from register_unknown [OF this] show ?thesis
    using assms(2)
    by (simp add: start_def Let_def load_policies_from_file_def start_experiment_def
        load_policy_def)
qed

text \<open>The constructor succeeds on the arguments of the concrete experiment, whatever the
  type of the Pac-Man agent.\<close>

lemma demo_init_ok:
  assumes "ga \<in> {''random'', ''ai''}"
  shows "\<exists>ad w1. BerkeleyAdapter_init demo_env (demo_args pa ga) initial_world = Inr (ad, w1)
           \<and> agent_type (pacman ad) = pa \<and> policy_file ad = None"
proof -
  let ?args = "demo_args pa ga"
  have "\<not> isl (BerkeleyAdapter_init demo_env ?args initial_world)"
    using assms
    by (intro BerkeleyAdapter_init_succeeds)
       (auto simp: layout_file_def demo_args_def demo_env_def str_int_def str_if_truthy_def)
  then obtain ad w1 where r: "BerkeleyAdapter_init demo_env ?args initial_world = Inr (ad, w1)"
    by (cases "BerkeleyAdapter_init demo_env ?args initial_world") auto
  note i = BerkeleyAdapter_init_Inr [OF r]
  have "agent_type (pacman ad) = pa"
    using i(4) by (simp add: BerkeleyAdapterAgent_init_def demo_args_def)
  moreover have "policy_file ad = None"
    using i(13) by (simp add: demo_args_def str_if_truthy_def)
  ultimately show ?thesis using r by blast
qed

text \<open>
  Claim C7, as stated, fails for the Pac-Man adapter agent: an experiment whose Pac-Man
  agent type is the unknown name \<^verbatim>\<open>bogus\<close> is constructed; the name is rejected only
  when the experiment is started.
\<close>

theorem unknown_pacman_agent_constructed:
  "\<not> isl (BerkeleyAdapter_init demo_env (demo_args ''bogus'' ''ai'') initial_world)
   \<and> build_and_start demo_env (demo_args ''bogus'' ''ai'') initial_world
       = Inl (ValueError ''Pac-Man agent must be ai, random, random2 or eater.'')"
proof -
  obtain ad w1 where
      r: "BerkeleyAdapter_init demo_env (demo_args ''bogus'' ''ai'') initial_world = Inr (ad, w1)"
      and ty: "agent_type (pacman ad) = ''bogus''" and pf: "policy_file ad = None"
    using demo_init_ok [of "''ai''" "''bogus''"] by auto
  have "agent_type (pacman ad) \<notin> {''random'', ''random2'', ''ai'', ''eater''}"
    using ty by simp
  from start_unknown_error [OF this pf, of demo_env w1] r show ?thesis
    by (simp add: build_and_start_def)
qed

text \<open>
  Claim C7, amended: the ghost agent name is validated by the constructor of the
  experiment, which fails for a name other than \<^verbatim>\<open>random\<close> and \<^verbatim>\<open>ai\<close>. The constructor of
  the Pac-Man adapter agent accepts and stores every agent type, and the constructor of
  the experiment hands it the type unchecked; the type is validated by \<^verbatim>\<open>_register\<close>, which
  raises \<^verbatim>\<open>ValueError\<close> for a name outside \<^verbatim>\<open>random\<close>, \<^verbatim>\<open>random2\<close>, \<^verbatim>\<open>ai\<close>, \<^verbatim>\<open>eater\<close>, so that
  \<^verbatim>\<open>start_experiment\<close>, \<^verbatim>\<open>start\<close> and the whole run (construct, start, execute) fail for
  such a name.
\<close>

theorem role_validation:
  "(arg_ghost_agent args \<notin> {''random'', ''ai''} \<longrightarrow> isl (BerkeleyAdapter_init e args w))
   \<and> agent_type (BerkeleyAdapterAgent_init t) = t
   \<and> (BerkeleyAdapter_init e args w = Inr (ad, w1) \<longrightarrow>
        agent_type (pacman ad) = arg_pacman_agent args)
   \<and> (agent_type a \<notin> {''random'', ''random2'', ''ai'', ''eater''} \<longrightarrow>
        register a w = Inl (ValueError ''Pac-Man agent must be ai, random, random2 or eater.'')
        \<and> isl (start_experiment a w))
   \<and> (agent_type (pacman ad0) \<notin> {''random'', ''random2'', ''ai'', ''eater''} \<longrightarrow>
        isl (start e ad0 w))
   \<and> (arg_pacman_agent args \<notin> {''random'', ''random2'', ''ai'', ''eater''} \<longrightarrow>
        isl (build_and_start e args w) \<and> isl (run_experiment e args w))"
proof (intro conjI impI)
  assume "arg_ghost_agent args \<notin> {''random'', ''ai''}"
  then show "isl (BerkeleyAdapter_init e args w)"
    using BerkeleyAdapter_init_fails by blast
next
  show "agent_type (BerkeleyAdapterAgent_init t) = t"
    by (simp add: BerkeleyAdapterAgent_init_def)
next
  assume "BerkeleyAdapter_init e args w = Inr (ad, w1)"
  then show "agent_type (pacman ad) = arg_pacman_agent args"
    using BerkeleyAdapter_init_Inr(4) by (simp add: BerkeleyAdapterAgent_init_def)
next
  assume "agent_type a \<notin> {''random'', ''random2'', ''ai'', ''eater''}"
  then show "register a w = Inl (ValueError ''Pac-Man agent must be ai, random, random2 or eater.'')"
    by (rule register_unknown)
next
  assume "agent_type a \<notin> {''random'', ''random2'', ''ai'', ''eater''}"
  then show "isl (start_experiment a w)" by (rule start_experiment_unknown)
next
  assume "agent_type (pacman ad0) \<notin> {''random'', ''random2'', ''ai'', ''eater''}"
  then show "isl (start e ad0 w)" by (rule start_unknown)
next
  assume p: "arg_pacman_agent args \<notin> {''random'', ''random2'', ''ai'', ''eater''}"
  show b: "isl (build_and_start e args w)"
  proof (cases "BerkeleyAdapter_init e args w")
    case (Inl err)
    then show ?thesis by (simp add: build_and_start_def)
  next
    case (Inr s)
    obtain ad2 w2 where s: "s = (ad2, w2)" by (cases s)
    have "agent_type (pacman ad2) = arg_pacman_agent args"
      using BerkeleyAdapter_init_Inr(4) [of e args w ad2 w2] Inr s
      by (simp add: BerkeleyAdapterAgent_init_def)
    then have "isl (start e ad2 w2)" using p start_unknown by simp
    then show ?thesis using Inr s by (simp add: build_and_start_def)
  qed
  then show "isl (run_experiment e args w)"
    by (cases "build_and_start e args w") (simp_all add: run_experiment_def)
qed

theorem role_validation_witness:
  "isl (BerkeleyAdapter_init demo_env (demo_args ''random'' ''bogus'') initial_world)
   \<and> (\<exists>ad w1. BerkeleyAdapter_init demo_env (demo_args ''bogus'' ''ai'') initial_world
                 = Inr (ad, w1)
        \<and> agent_type (pacman ad) = ''bogus'' \<and> isl (start demo_env ad w1))
   \<and> register (BerkeleyAdapterAgent_init ''bogus'') initial_world
       = Inl (ValueError ''Pac-Man agent must be ai, random, random2 or eater.'')
   \<and> isl (start_experiment (BerkeleyAdapterAgent_init ''bogus'') initial_world)
   \<and> isl (build_and_start demo_env (demo_args ''bogus'' ''ai'') initial_world)
   \<and> isl (run_experiment demo_env (demo_args ''bogus'' ''ai'') initial_world)"
proof -
  let ?g = "demo_args ''random'' ''bogus''"
  let ?p = "demo_args ''bogus'' ''ai''"
  let ?S = "{''random'', ''random2'', ''ai'', ''eater''}"
  have g: "arg_ghost_agent ?g \<notin> {''random'', ''ai''}" by (simp add: demo_args_def)
  have p: "arg_pacman_agent ?p \<notin> ?S" "arg_pacman_agent ?p = ''bogus''"
    by (simp_all add: demo_args_def)
  have b: "agent_type (BerkeleyAdapterAgent_init ''bogus'') \<notin> ?S"
    by (simp add: BerkeleyAdapterAgent_init_def)
  obtain ad w1 where r: "BerkeleyAdapter_init demo_env ?p initial_world = Inr (ad, w1)"
    using demo_init_ok [of "''ai''" "''bogus''"] by auto
  have 1: "isl (BerkeleyAdapter_init demo_env ?g initial_world)"
    using role_validation [where args = ?g and e = demo_env and w = initial_world] g by blast
  have 2: "agent_type (pacman ad) = ''bogus''"
    using role_validation [where args = ?p and e = demo_env and w = initial_world
        and ad = ad and ?w1.0 = w1] r p(2)
    by simp
  then have "agent_type (pacman ad) \<notin> ?S" by simp
  then have 3: "isl (start demo_env ad w1)"
    using role_validation [where e = demo_env and w = w1 and ?ad0.0 = ad] by blast
  have 4: "register (BerkeleyAdapterAgent_init ''bogus'') initial_world
             = Inl (ValueError ''Pac-Man agent must be ai, random, random2 or eater.'')
           \<and> isl (start_experiment (BerkeleyAdapterAgent_init ''bogus'') initial_world)"
    using role_validation [where w = initial_world and a = "BerkeleyAdapterAgent_init ''bogus''"] b
    by blast
  have 5: "isl (build_and_start demo_env ?p initial_world)
           \<and> isl (run_experiment demo_env ?p initial_world)"
    using role_validation [where args = ?p and e = demo_env and w = initial_world] p(1)
    by blast
  from 1 2 3 4 5 r show ?thesis by blast
qed

section \<open>Behaviour counts\<close>

text \<open>
  Claim C8 describes what \<^verbatim>\<open>finish_game\<close> is written to do; the code does not do it. For
  an agent of type \<^verbatim>\<open>ai\<close>, the only type that tracks behaviours, \<^verbatim>\<open>finish_game\<close> raises
  in the first statement of \<^verbatim>\<open>_log_behavior_count\<close>: no \<^verbatim>\<open>RequestBehaviorCountMessage\<close>
  is sent and nothing is appended.
\<close>

theorem finish_game_ai_raises:
  "finish_game ((demo_agent ''ai'')\<lparr>scores := [20]\<rparr>) initial_world
     = Inl (AttributeError ''pacman'')"
  by (simp add: finish_game_def BerkeleyAdapterAgent_log_behavior_count_def demo_agent_def
      reset_game_data_def BerkeleyAdapterAgent_init_def)

text \<open>
  The loop of the experiment's \<^verbatim>\<open>_log_behavior_count\<close> over the items of a dictionary
  (the labels are distinct): the sequence of every reported label grows by the reported
  count at its end, a label seen for the first time starts from the empty sequence, and
  every other sequence is left as it was.
\<close>

lemma log_items_appends:
  assumes "behavior_count r aid = Some per" "distinct (map fst items)"
  shows "\<exists>per1. log_items aid items r
                  = Inr (r\<lparr>behavior_count := (behavior_count r)(aid \<mapsto> per1)\<rparr>) \<and>
           (\<forall>b. per1 b = (case map_of items b of
                             None \<Rightarrow> per b
                           | Some c \<Rightarrow> Some ((case per b of None \<Rightarrow> [] | Some xs \<Rightarrow> xs) @ [c])))"
  using assms
proof (induction items arbitrary: r per)
  case Nil
  have "r\<lparr>behavior_count := (behavior_count r)(aid \<mapsto> per)\<rparr> = r"
    using Nil.prems(1) by (simp add: fun_upd_idem)
  then have "log_items aid [] r
               = Inr (r\<lparr>behavior_count := (behavior_count r)(aid \<mapsto> per)\<rparr>)"
    by simp
  moreover have "\<forall>b. per b = (case map_of [] b of
                             None \<Rightarrow> per b
                           | Some c \<Rightarrow> Some ((case per b of None \<Rightarrow> [] | Some xs \<Rightarrow> xs) @ [c]))"
    by simp
  ultimately show ?case by blast
next
  case (Cons item rest)
  obtain b c where item: "item = (b, c)" by (cases item)
  let ?xs = "case per b of None \<Rightarrow> [] | Some xs \<Rightarrow> xs"
  let ?per = "per(b \<mapsto> ?xs @ [c])"
  let ?r = "r\<lparr>behavior_count := (behavior_count r)(aid \<mapsto> ?per)\<rparr>"
  have step: "log_items aid (item # rest) r = log_items aid rest ?r"
    using Cons.prems(1) item by (cases "per b") (simp_all add: Let_def)
  have "behavior_count ?r aid = Some ?per" by simp
  moreover have "distinct (map fst rest)" using Cons.prems(2) by simp
  ultimately obtain per1 where
      run: "log_items aid rest ?r
              = Inr (?r\<lparr>behavior_count := (behavior_count ?r)(aid \<mapsto> per1)\<rparr>)"
      and each: "\<forall>b'. per1 b' = (case map_of rest b' of
                             None \<Rightarrow> ?per b'
                           | Some c' \<Rightarrow> Some ((case ?per b' of None \<Rightarrow> [] | Some xs \<Rightarrow> xs) @ [c']))"
    using Cons.IH [of ?r ?per] by blast
  have fresh: "map_of rest b = None"
    using Cons.prems(2) item by (simp add: map_of_eq_None_iff)
  have "log_items aid (item # rest) r
          = Inr (r\<lparr>behavior_count := (behavior_count r)(aid \<mapsto> per1)\<rparr>)"
    using step run by simp
  moreover have "per1 b' = (case map_of (item # rest) b' of
                             None \<Rightarrow> per b'
                           | Some c' \<Rightarrow> Some ((case per b' of None \<Rightarrow> [] | Some xs \<Rightarrow> xs) @ [c']))"
    for b'
  proof (cases "b' = b")
    case True
    then show ?thesis using each [rule_format, of b] fresh item by simp
  next
    case False
    then show ?thesis using each [rule_format, of b'] item
      by (simp split: option.splits)
  qed
  ultimately show ?case by blast
qed

section \<open>The phases of an experiment\<close>

lemma getAction_ok:
  assumes "0 \<le> noise w" "previous_score a \<noteq> None" "previous_action a \<noteq> None"
  shows "\<exists>act a1 w1 m.
           getAction e a g w = Inr (act, a1, w1) \<and> same_session a a1 \<and>
           previous_score a1 \<noteq> None \<and> previous_action a1 \<noteq> None \<and>
           sent w1 = sent w @ [StateMessage m] \<and> test_mode m = is_test_mode a \<and>
           noise w1 = noise w \<and> pacman_index w1 = pacman_index w \<and>
           games_run w1 = games_run w"
proof -
  let ?a = "a\<lparr>game_state := Some g\<rparr>"
  from assms obtain s d where sd: "previous_score ?a = Some s" "previous_action ?a = Some d"
    by auto
  have gs: "game_state ?a = Some g" by simp
  from send_state_effect [OF assms(1) gs sd, of e] obtain act w1 m where
      run: "send_state e ?a w = Inr (act, ?a\<lparr>previous_score := Some (getScore g)\<rparr>, w1)"
      and rest: "sent w1 = sent w @ [StateMessage m]" "test_mode m = is_test_mode ?a"
        "noise w1 = noise w" "pacman_index w1 = pacman_index w" "games_run w1 = games_run w"
    by blast
  let ?a1 = "?a\<lparr>previous_score := Some (getScore g), previous_action := Some act\<rparr>"
  have "getAction e a g w = Inr (act, ?a1, w1)"
    using run by (simp add: getAction_def receive_action_def)
  moreover have "same_session a ?a1" by (simp add: same_session_def)
  moreover have "previous_score ?a1 \<noteq> None" "previous_action ?a1 \<noteq> None" by simp_all
  moreover have "test_mode m = is_test_mode a" using rest(2) by simp
  ultimately show ?thesis using rest(1,3,4,5) by blast
qed

lemma same_session_trans: "same_session a b \<Longrightarrow> same_session b c \<Longrightarrow> same_session a c"
  by (simp add: same_session_def)

lemma same_session_refl: "same_session a a"
  by (simp add: same_session_def)

lemma play_ok:
  assumes "0 \<le> noise w" "previous_score a \<noteq> None" "previous_action a \<noteq> None"
  shows "\<exists>g1 a1 w1 ms.
           play e s a w = Inr (g1, a1, w1) \<and> same_session a a1 \<and>
           previous_score a1 \<noteq> None \<and> previous_action a1 \<noteq> None \<and>
           sent w1 = sent w @ ms \<and> list_all (is_state_with (is_test_mode a)) ms \<and>
           noise w1 = noise w \<and> pacman_index w1 = pacman_index w \<and>
           games_run w1 = games_run w"
  using assms
proof (induction s arbitrary: a w)
  case (GameOver g)
  have "play e (GameOver g) a w = Inr (g, a, w)" by simp
  moreover have "sent w = sent w @ []" "list_all (is_state_with (is_test_mode a)) []"
    by simp_all
  ultimately show ?case using GameOver.prems same_session_refl by blast
next
  case (Turn g k)
  from getAction_ok [OF Turn.prems, of e g] obtain act a1 w1 m where
      step: "getAction e a g w = Inr (act, a1, w1)" and ss: "same_session a a1"
      and p1: "previous_score a1 \<noteq> None" "previous_action a1 \<noteq> None"
      and l1: "sent w1 = sent w @ [StateMessage m]" "test_mode m = is_test_mode a"
      and w1: "noise w1 = noise w" "pacman_index w1 = pacman_index w"
        "games_run w1 = games_run w"
    by blast
  have n1: "0 \<le> noise w1" using w1(1) Turn.prems(1) by simp
  have "k act \<in> range k" by simp
  from Turn.IH [OF this n1 p1] obtain g2 a2 w2 ms where
      rest: "play e (k act) a1 w1 = Inr (g2, a2, w2)" and ss2: "same_session a1 a2"
      and p2: "previous_score a2 \<noteq> None" "previous_action a2 \<noteq> None"
      and l2: "sent w2 = sent w1 @ ms" "list_all (is_state_with (is_test_mode a1)) ms"
      and w2: "noise w2 = noise w1" "pacman_index w2 = pacman_index w1"
        "games_run w2 = games_run w1"
    by blast
  have t: "is_test_mode a1 = is_test_mode a" using ss by (simp add: same_session_def)
  have "play e (Turn g k) a w = Inr (g2, a2, w2)" using step rest by simp
  moreover have "same_session a a2" using ss ss2 by (rule same_session_trans)
  moreover have "sent w2 = sent w @ (StateMessage m # ms)" using l1(1) l2(1) by simp
  moreover have "list_all (is_state_with (is_test_mode a)) (StateMessage m # ms)"
    using l1(2) l2(2) t by simp
  moreover have "noise w2 = noise w" "pacman_index w2 = pacman_index w"
    "games_run w2 = games_run w"
    using w1 w2 by simp_all
  ultimately show ?case using p2 by blast
qed

lemma log_items_ok:
  assumes "behavior_count r aid \<noteq> None"
  shows "\<exists>r1. log_items aid items r = Inr r1 \<and> learn_scores r1 = learn_scores r \<and>
           test_scores r1 = test_scores r \<and>
           dom (behavior_count r1) = dom (behavior_count r)"
  using assms
proof (induction items arbitrary: r)
  case Nil
  then show ?case by simp
next
  case (Cons item rest)
  obtain b c where item: "item = (b, c)" by (cases item)
  from Cons.prems obtain per where per: "behavior_count r aid = Some per" by auto
  let ?xs = "case per b of None \<Rightarrow> [] | Some xs \<Rightarrow> xs"
  let ?r = "r\<lparr>behavior_count := (behavior_count r)(aid \<mapsto> per(b \<mapsto> ?xs @ [c]))\<rparr>"
  have step: "log_items aid (item # rest) r = log_items aid rest ?r"
    using per item by (cases "per b") (simp_all add: Let_def)
  have "behavior_count ?r aid \<noteq> None" by simp
  from Cons.IH [OF this] obtain r1 where
      "log_items aid rest ?r = Inr r1" "learn_scores r1 = learn_scores ?r"
      "test_scores r1 = test_scores ?r" "dom (behavior_count r1) = dom (behavior_count ?r)"
    by blast
  moreover have "dom (behavior_count ?r) = dom (behavior_count r)"
    using per by auto
  ultimately show ?case using step by simp
qed

lemma log_behavior_count_ok:
  assumes "results ad = Some r" "behavior_count r (ghost_id g) \<noteq> None"
  shows "\<exists>r1. BerkeleyAdapter_log_behavior_count e k g (ad, w)
                 = Inr (ad\<lparr>results := Some r1\<rparr>,
                        call_ghost (ghost_id g) GhostGetBehaviorCount w) \<and>
           learn_scores r1 = learn_scores r \<and> test_scores r1 = test_scores r \<and>
           dom (behavior_count r1) = dom (behavior_count r)"
proof (cases "get_behavior_count e k (ghost_id g) = []")
  case True
  have "ad\<lparr>results := Some r\<rparr> = ad" using assms(1) [symmetric] by simp
  then have "BerkeleyAdapter_log_behavior_count e k g (ad, w)
               = Inr (ad\<lparr>results := Some r\<rparr>, call_ghost (ghost_id g) GhostGetBehaviorCount w)"
    using True by (simp add: BerkeleyAdapter_log_behavior_count_def Let_def)
  then show ?thesis by blast
next
  case False
  from log_items_ok [OF assms(2), of "get_behavior_count e k (ghost_id g)"] obtain r1 where
      r1: "log_items (ghost_id g) (get_behavior_count e k (ghost_id g)) r = Inr r1"
      and same: "learn_scores r1 = learn_scores r" "test_scores r1 = test_scores r"
        "dom (behavior_count r1) = dom (behavior_count r)"
    by blast
  have "BerkeleyAdapter_log_behavior_count e k g (ad, w)
          = Inr (ad\<lparr>results := Some r1\<rparr>, call_ghost (ghost_id g) GhostGetBehaviorCount w)"
    using False assms(1) r1 by (simp add: BerkeleyAdapter_log_behavior_count_def Let_def)
  with same show ?thesis by blast
qed

lemma log_ghosts_ok:
  assumes "results ad = Some r" "\<forall>g \<in> set gs. behavior_count r (ghost_id g) \<noteq> None"
  shows "\<exists>r1. log_ghosts e k gs (ad, w)
                 = Inr (ad\<lparr>results := Some r1\<rparr>, call_ghosts GhostGetBehaviorCount gs w) \<and>
           learn_scores r1 = learn_scores r \<and> test_scores r1 = test_scores r \<and>
           dom (behavior_count r1) = dom (behavior_count r)"
  using assms
proof (induction gs arbitrary: ad r w)
  case Nil
  have "ad\<lparr>results := Some r\<rparr> = ad" using Nil.prems(1) [symmetric] by simp
  then have "log_ghosts e k [] (ad, w)
               = Inr (ad\<lparr>results := Some r\<rparr>, call_ghosts GhostGetBehaviorCount [] w)"
    by simp
  then show ?case by blast
next
  case (Cons g rest)
  have "behavior_count r (ghost_id g) \<noteq> None" using Cons.prems(2) by simp
  from log_behavior_count_ok [OF Cons.prems(1) this, of e k w] obtain r1 where
      first: "BerkeleyAdapter_log_behavior_count e k g (ad, w)
                = Inr (ad\<lparr>results := Some r1\<rparr>,
                       call_ghost (ghost_id g) GhostGetBehaviorCount w)"
      and same1: "learn_scores r1 = learn_scores r" "test_scores r1 = test_scores r"
        "dom (behavior_count r1) = dom (behavior_count r)"
    by blast
  let ?ad = "ad\<lparr>results := Some r1\<rparr>"
  let ?w = "call_ghost (ghost_id g) GhostGetBehaviorCount w"
  have "results ?ad = Some r1" by simp
  moreover have "\<forall>g \<in> set rest. behavior_count r1 (ghost_id g) \<noteq> None"
    using Cons.prems(2) same1(3) by (metis domIff list.set_intros(2))
  ultimately obtain r2 where
      rest: "log_ghosts e k rest (?ad, ?w)
               = Inr (?ad\<lparr>results := Some r2\<rparr>, call_ghosts GhostGetBehaviorCount rest ?w)"
      and same2: "learn_scores r2 = learn_scores r1" "test_scores r2 = test_scores r1"
        "dom (behavior_count r2) = dom (behavior_count r1)"
    using Cons.IH [of ?ad r1 ?w] by blast
  have "log_ghosts e k (g # rest) (ad, w)
          = Inr (ad\<lparr>results := Some r2\<rparr>, call_ghosts GhostGetBehaviorCount (g # rest) w)"
    using first rest by simp
  with same1 same2 show ?case by auto
qed

text \<open>The first part of \<^verbatim>\<open>_run_game\<close>, once \<^verbatim>\<open>start\<close> has created the policies: it
  returns, and only the ghost agents are called.\<close>

lemma run_game_ghosts_start:
  assumes "policies ad \<noteq> None"
  shows "\<exists>wa. (if policy_file ad \<noteq> None
                then load_ghost_policies (policies ad) (ghosts ad)
                       (call_ghosts GhostStartGame (ghosts ad) w)
                else Inr (call_ghosts GhostStartGame (ghosts ad) w)) = Inr wa \<and>
           noise wa = noise w \<and> pacman_index wa = pacman_index w \<and> sent wa = sent w \<and>
           games_run wa = games_run w"
proof (cases "policy_file ad = None")
  case True
  then show ?thesis by simp
next
  case False
  let ?w = "call_ghosts GhostStartGame (ghosts ad) w"
  from load_ghost_policies_ok [OF assms, of "ghosts ad" ?w] obtain wa where
    l: "load_ghost_policies (policies ad) (ghosts ad) ?w = Inr wa"
    by blast
  from load_ghost_policies_frame [OF l] have
    "noise wa = noise w" "pacman_index wa = pacman_index w" "sent wa = sent w"
    "games_run wa = games_run w"
    by simp_all
  then show ?thesis using False l by simp
qed

lemma run_game_ok:
  assumes "0 \<le> noise w" "previous_score (pacman ad) \<noteq> None"
    "previous_action (pacman ad) \<noteq> None" "results ad = Some r"
    "ghost_class ad = BehaviorLearningGhostAgent \<longrightarrow>
       (\<forall>g \<in> set (ghosts ad). behavior_count r (ghost_id g) \<noteq> None)"
    "policies ad \<noteq> None"
  shows "\<exists>score pm r1 w1 ms.
           run_game e ad w = Inr (score, ad\<lparr>pacman := pm, results := Some r1\<rparr>, w1) \<and>
           same_session (pacman ad) pm \<and>
           learn_scores r1 = learn_scores r \<and> test_scores r1 = test_scores r \<and>
           dom (behavior_count r1) = dom (behavior_count r) \<and>
           sent w1 = sent w @ ms \<and> ms \<noteq> [] \<and>
           list_all (is_state_with (is_test_mode (pacman ad))) ms \<and>
           noise w1 = noise w \<and> pacman_index w1 = pacman_index w \<and>
           games_run w1 = Suc (games_run w)"
proof -
  from run_game_ghosts_start [OF assms(6), of w] obtain wa where
      st: "(if policy_file ad \<noteq> None
            then load_ghost_policies (policies ad) (ghosts ad)
                   (call_ghosts GhostStartGame (ghosts ad) w)
            else Inr (call_ghosts GhostStartGame (ghosts ad) w)) = Inr wa"
      and fa: "noise wa = noise w" "pacman_index wa = pacman_index w" "sent wa = sent w"
        "games_run wa = games_run w"
    by blast
  let ?k = "games_run wa"
  let ?w0 = "wa\<lparr>games_run := Suc ?k\<rparr>"
  let ?t = "is_test_mode (pacman ad)"
  have n0: "0 \<le> noise ?w0" using assms(1) fa(1) by simp
  from play_ok [OF n0 assms(2,3), of e "run_berkeley_games e ?k"] obtain final pm1 w1 ms where
      pl: "play e (run_berkeley_games e ?k) (pacman ad) ?w0 = Inr (final, pm1, w1)"
      and ss1: "same_session (pacman ad) pm1"
      and p1: "previous_score pm1 \<noteq> None" "previous_action pm1 \<noteq> None"
      and l1: "sent w1 = sent ?w0 @ ms" "list_all (is_state_with ?t) ms"
      and f1: "noise w1 = noise ?w0" "pacman_index w1 = pacman_index ?w0"
        "games_run w1 = games_run ?w0"
    by blast
  have n1: "0 \<le> noise w1" using f1(1) fa(1) assms(1) by simp
  from getAction_ok [OF n1 p1, of e final] obtain act pm2 w2 m where
      ga: "getAction e pm1 final w1 = Inr (act, pm2, w2)"
      and ss2: "same_session pm1 pm2"
      and l2: "sent w2 = sent w1 @ [StateMessage m]" "test_mode m = is_test_mode pm1"
      and f2: "noise w2 = noise w1" "pacman_index w2 = pacman_index w1"
        "games_run w2 = games_run w1"
    by blast
  let ?ad = "ad\<lparr>pacman := pm2\<rparr>"
  let ?w3 = "call_ghosts GhostUpdate (ghosts ad) w2"
  let ?w4 = "if ghost_class ad = BehaviorLearningGhostAgent
             then call_ghosts GhostGetBehaviorCount (ghosts ad) ?w3 else ?w3"
  have t1: "is_test_mode pm1 = ?t" using ss1 by (simp add: same_session_def)
  have "\<exists>r1. (if ghost_class ad = BehaviorLearningGhostAgent
               then log_ghosts e ?k (ghosts ad) (?ad, ?w3) else Inr (?ad, ?w3))
              = Inr (?ad\<lparr>results := Some r1\<rparr>, ?w4) \<and>
             learn_scores r1 = learn_scores r \<and> test_scores r1 = test_scores r \<and>
             dom (behavior_count r1) = dom (behavior_count r)"
  proof (cases "ghost_class ad = BehaviorLearningGhostAgent")
    case True
    have "results ?ad = Some r" using assms(4) by simp
    moreover have "\<forall>g \<in> set (ghosts ad). behavior_count r (ghost_id g) \<noteq> None"
      using assms(5) True by simp
    ultimately show ?thesis using log_ghosts_ok [of ?ad r "ghosts ad" e ?k ?w3] True by simp
  next
    case False
    have "?ad\<lparr>results := Some r\<rparr> = ?ad" using assms(4) [symmetric] by simp
    then have "(if ghost_class ad = BehaviorLearningGhostAgent
                then log_ghosts e ?k (ghosts ad) (?ad, ?w3) else Inr (?ad, ?w3))
               = Inr (?ad\<lparr>results := Some r\<rparr>, ?w4)"
      using False by simp
    then show ?thesis by blast
  qed
  then obtain r1 where
      lg: "(if ghost_class ad = BehaviorLearningGhostAgent
             then log_ghosts e ?k (ghosts ad) (?ad, ?w3) else Inr (?ad, ?w3))
            = Inr (?ad\<lparr>results := Some r1\<rparr>, ?w4)"
      and same: "learn_scores r1 = learn_scores r" "test_scores r1 = test_scores r"
        "dom (behavior_count r1) = dom (behavior_count r)"
    by blast
  have "run_game e ad w
          = (case (if policy_file ad \<noteq> None
                   then load_ghost_policies (policies ad) (ghosts ad)
                          (call_ghosts GhostStartGame (ghosts ad) w)
                   else Inr (call_ghosts GhostStartGame (ghosts ad) w))
             of Inl err \<Rightarrow> Inl err
              | Inr wa \<Rightarrow>
                  (let k = games_run wa;
                       w0 = wa\<lparr>games_run := Suc k\<rparr>
                   in case play e (run_berkeley_games e k) (pacman ad) w0 of
                        Inl err \<Rightarrow> Inl err
                      | Inr (final, pm1, w1) \<Rightarrow>
                          (case getAction e pm1 final w1 of
                             Inl err \<Rightarrow> Inl err
                           | Inr (action, pm2, w2) \<Rightarrow>
                               (case (if ghost_class ad = BehaviorLearningGhostAgent
                                      then log_ghosts e k (ghosts ad)
                                             (ad\<lparr>pacman := pm2\<rparr>,
                                              call_ghosts GhostUpdate (ghosts ad) w2)
                                      else Inr (ad\<lparr>pacman := pm2\<rparr>,
                                                call_ghosts GhostUpdate (ghosts ad) w2))
                                of Inl err \<Rightarrow> Inl err
                                 | Inr (ad1, w3) \<Rightarrow> Inr (getScore final, ad1, w3)))))"
    by (simp only: run_game_def)
  also have "\<dots> = Inr (getScore final, ad\<lparr>pacman := pm2, results := Some r1\<rparr>, ?w4)"
    unfolding st using pl ga lg by (simp add: Let_def)
  finally have run:
    "run_game e ad w = Inr (getScore final, ad\<lparr>pacman := pm2, results := Some r1\<rparr>, ?w4)" .
  have "same_session (pacman ad) pm2" using ss1 ss2 by (rule same_session_trans)
  moreover have "sent ?w4 = sent w @ (ms @ [StateMessage m])" using l1(1) l2(1) fa(3) by simp
  moreover have "ms @ [StateMessage m] \<noteq> []" by simp
  moreover have "list_all (is_state_with ?t) (ms @ [StateMessage m])"
    using l1(2) l2(2) t1 by simp
  moreover have "noise ?w4 = noise w" "pacman_index ?w4 = pacman_index w"
    "games_run ?w4 = Suc (games_run w)"
    using f1 f2 fa by simp_all
  ultimately show ?thesis using same run by blast
qed

lemma game_core:
  assumes "ready ad w"
  shows "\<exists>pm r r2 w2 ms score.
           results ad = Some r \<and> same_session (reset_game_data (pacman ad)) pm \<and>
           learn_scores r2 = learn_scores r \<and> test_scores r2 = test_scores r \<and>
           dom (behavior_count r2) = dom (behavior_count r) \<and>
           sent w2 = sent w @ ms \<and> episode_trace (is_test_mode (pacman ad)) ms \<and>
           noise w2 = noise w \<and> games_run w2 = Suc (games_run w) \<and>
           game e t (ad, w) =
             (case finish_game (pm\<lparr>scores := scores pm @ [score]\<rparr>) w2 of
                Inl err \<Rightarrow> Inl err
              | Inr (pm3, w3) \<Rightarrow>
                  Inr (ad\<lparr>pacman := pm3,
                          results := Some (if t then r2\<lparr>test_scores := test_scores r2 @ [score]\<rparr>
                                           else r2\<lparr>learn_scores := learn_scores r2 @ [score]\<rparr>)\<rparr>,
                       w3))"
proof -
  from assms obtain r lay where
      n: "0 \<le> noise w" and lay: "layout (pacman ad) = Some lay"
      and r: "results ad = Some r"
      and keys: "ghost_class ad = BehaviorLearningGhostAgent \<longrightarrow>
                   (\<forall>g \<in> set (ghosts ad). behavior_count r (ghost_id g) \<noteq> None)"
      and ps: "policies ad \<noteq> None"
    by (auto simp: ready_def)
  let ?pm1 = "reset_game_data (pacman ad)"
  let ?req = "RequestGameStartMessage (index ?pm1) (width lay) (height lay)"
  let ?w1 = "communicate ?req w"
  let ?ad1 = "ad\<lparr>pacman := ?pm1\<rparr>"
  have sg: "start_game (pacman ad) w = Inr (?pm1, ?w1)"
    using lay by (simp add: start_game_def request_game_start_def reset_game_data_def Let_def)
  have n1: "0 \<le> noise ?w1" using n by (simp add: communicate_def)
  have p1: "previous_score (pacman ?ad1) \<noteq> None" "previous_action (pacman ?ad1) \<noteq> None"
    by (simp_all add: reset_game_data_def)
  have r1: "results ?ad1 = Some r" using r by simp
  have k1: "ghost_class ?ad1 = BehaviorLearningGhostAgent \<longrightarrow>
              (\<forall>g \<in> set (ghosts ?ad1). behavior_count r (ghost_id g) \<noteq> None)"
    using keys by simp
  have ps1: "policies ?ad1 \<noteq> None" using ps by simp
  from run_game_ok [OF n1 p1 r1 k1 ps1, of e] obtain score pm r2 w2 ms where
      rg: "run_game e ?ad1 ?w1 = Inr (score, ?ad1\<lparr>pacman := pm, results := Some r2\<rparr>, w2)"
      and ss: "same_session (pacman ?ad1) pm"
      and same: "learn_scores r2 = learn_scores r" "test_scores r2 = test_scores r"
        "dom (behavior_count r2) = dom (behavior_count r)"
      and log: "sent w2 = sent ?w1 @ ms" "ms \<noteq> []"
        "list_all (is_state_with (is_test_mode (pacman ?ad1))) ms"
      and fr: "noise w2 = noise ?w1" "games_run w2 = Suc (games_run ?w1)"
    by blast
  have run: "game e t (ad, w) =
             (case finish_game (pm\<lparr>scores := scores pm @ [score]\<rparr>) w2 of
                Inl err \<Rightarrow> Inl err
              | Inr (pm3, w3) \<Rightarrow>
                  Inr (ad\<lparr>pacman := pm3,
                          results := Some (if t then r2\<lparr>test_scores := test_scores r2 @ [score]\<rparr>
                                           else r2\<lparr>learn_scores := learn_scores r2 @ [score]\<rparr>)\<rparr>,
                       w3))"
    using sg rg by (simp add: game_def Let_def split: sum.splits)
  have ss': "same_session ?pm1 pm" using ss by simp
  have lg: "sent w2 = sent w @ (?req # ms)" using log(1) by (simp add: communicate_def)
  have ep: "episode_trace (is_test_mode (pacman ad)) (?req # ms)"
    using log(2,3) by (simp add: reset_game_data_def)
  have nz: "noise w2 = noise w" "games_run w2 = Suc (games_run w)"
    using fr by (simp_all add: communicate_def)
  from r ss' same lg ep nz run show ?thesis by blast
qed

text \<open>A game of an agent of type \<^verbatim>\<open>ai\<close> ends in the exception of \<^verbatim>\<open>finish_game\<close>.\<close>

lemma game_ai_raises:
  assumes "ready ad w" "agent_type (pacman ad) = ''ai''"
  shows "game e t (ad, w) = Inl (AttributeError ''pacman'')"
proof -
  from game_core [OF assms(1), of e t] obtain pm w2 score r2 where
      ss: "same_session (reset_game_data (pacman ad)) pm"
      and run: "game e t (ad, w) =
             (case finish_game (pm\<lparr>scores := scores pm @ [score]\<rparr>) w2 of
                Inl err \<Rightarrow> Inl err
              | Inr (pm3, w3) \<Rightarrow>
                  Inr (ad\<lparr>pacman := pm3,
                          results := Some (if t then r2\<lparr>test_scores := test_scores r2 @ [score]\<rparr>
                                           else r2\<lparr>learn_scores := learn_scores r2 @ [score]\<rparr>)\<rparr>,
                       w3))"
    by blast
  have "agent_type pm = ''ai''"
    using ss assms(2) by (simp add: same_session_def reset_game_data_def)
  then have "finish_game (pm\<lparr>scores := scores pm @ [score]\<rparr>) w2 = Inl (AttributeError ''pacman'')"
    by (simp add: finish_game_def BerkeleyAdapterAgent_log_behavior_count_def)
  with run show ?thesis by simp
qed

lemma game_ok:
  assumes "ready ad w" "agent_type (pacman ad) \<noteq> ''ai''"
  shows "\<exists>pm r r1 w1 ms score.
           results ad = Some r \<and>
           game e t (ad, w) = Inr (ad\<lparr>pacman := pm, results := Some r1\<rparr>, w1) \<and>
           ready (ad\<lparr>pacman := pm, results := Some r1\<rparr>) w1 \<and>
           agent_type pm = agent_type (pacman ad) \<and>
           is_test_mode pm = is_test_mode (pacman ad) \<and>
           learn_scores r1 = (if t then learn_scores r else learn_scores r @ [score]) \<and>
           test_scores r1 = (if t then test_scores r @ [score] else test_scores r) \<and>
           sent w1 = sent w @ ms \<and> episode_trace (is_test_mode (pacman ad)) ms \<and>
           noise w1 = noise w \<and> games_run w1 = Suc (games_run w)"
proof -
  from assms(1) obtain r0 where
      n: "0 \<le> noise w" and lay: "layout (pacman ad) \<noteq> None"
      and r0: "results ad = Some r0"
      and keys: "ghost_class ad = BehaviorLearningGhostAgent \<longrightarrow>
                   (\<forall>g \<in> set (ghosts ad). behavior_count r0 (ghost_id g) \<noteq> None)"
      and ps: "policies ad \<noteq> None"
    by (auto simp: ready_def)
  from game_core [OF assms(1), of e t] r0 obtain pm r2 w2 ms score where
      ss: "same_session (reset_game_data (pacman ad)) pm"
      and same: "learn_scores r2 = learn_scores r0" "test_scores r2 = test_scores r0"
        "dom (behavior_count r2) = dom (behavior_count r0)"
      and lg: "sent w2 = sent w @ ms" and ep: "episode_trace (is_test_mode (pacman ad)) ms"
      and nz: "noise w2 = noise w" "games_run w2 = Suc (games_run w)"
      and run: "game e t (ad, w) =
             (case finish_game (pm\<lparr>scores := scores pm @ [score]\<rparr>) w2 of
                Inl err \<Rightarrow> Inl err
              | Inr (pm3, w3) \<Rightarrow>
                  Inr (ad\<lparr>pacman := pm3,
                          results := Some (if t then r2\<lparr>test_scores := test_scores r2 @ [score]\<rparr>
                                           else r2\<lparr>learn_scores := learn_scores r2 @ [score]\<rparr>)\<rparr>,
                       w3))"
    by auto
  let ?r3 = "if t then r2\<lparr>test_scores := test_scores r2 @ [score]\<rparr>
             else r2\<lparr>learn_scores := learn_scores r2 @ [score]\<rparr>"
  let ?pm2 = "pm\<lparr>scores := scores pm @ [score]\<rparr>"
  have sess: "agent_type pm = agent_type (pacman ad)" "is_test_mode pm = is_test_mode (pacman ad)"
    "layout pm = layout (pacman ad)"
    using ss by (simp_all add: same_session_def reset_game_data_def)
  have fg: "finish_game ?pm2 w2 = Inr (?pm2, w2)"
    using assms(2) sess(1) by (simp add: finish_game_def)
  have run': "game e t (ad, w) = Inr (ad\<lparr>pacman := ?pm2, results := Some ?r3\<rparr>, w2)"
    using run fg by simp
  have dom3: "dom (behavior_count ?r3) = dom (behavior_count r0)" using same(3) by simp
  have rdy: "ready (ad\<lparr>pacman := ?pm2, results := Some ?r3\<rparr>) w2"
    unfolding ready_def
  proof (intro conjI)
    show "0 \<le> noise w2" using nz(1) n by simp
    show "layout (pacman (ad\<lparr>pacman := ?pm2, results := Some ?r3\<rparr>)) \<noteq> None"
      using sess(3) lay by simp
    show "policies (ad\<lparr>pacman := ?pm2, results := Some ?r3\<rparr>) \<noteq> None"
      using ps by simp
    have "\<forall>g \<in> set (ghosts ad). behavior_count ?r3 (ghost_id g) \<noteq> None"
      if "ghost_class ad = BehaviorLearningGhostAgent"
      using keys that dom3 by (metis domIff)
    then show "\<exists>ra. results (ad\<lparr>pacman := ?pm2, results := Some ?r3\<rparr>) = Some ra \<and>
         (ghost_class (ad\<lparr>pacman := ?pm2, results := Some ?r3\<rparr>) = BehaviorLearningGhostAgent \<longrightarrow>
          (\<forall>g \<in> set (ghosts (ad\<lparr>pacman := ?pm2, results := Some ?r3\<rparr>)).
              behavior_count ra (ghost_id g) \<noteq> None))"
      by simp
  qed
  have ty: "agent_type ?pm2 = agent_type (pacman ad)" using sess(1) by simp
  have tm: "is_test_mode ?pm2 = is_test_mode (pacman ad)" using sess(2) by simp
  have ls: "learn_scores ?r3 = (if t then learn_scores r0 else learn_scores r0 @ [score])"
    using same(1) by simp
  have ts: "test_scores ?r3 = (if t then test_scores r0 @ [score] else test_scores r0)"
    using same(2) by simp
  from r0 run' rdy ty tm ls ts lg ep nz show ?thesis by blast
qed

lemma loop_ok:
  assumes "ready ad w" "results ad = Some r" "agent_type (pacman ad) \<noteq> ''ai''"
  shows "\<exists>ad1 w1 r1 eps.
           xrange_loop n (game e t) (ad, w) = Inr (ad1, w1) \<and> ready ad1 w1 \<and>
           results ad1 = Some r1 \<and> agent_type (pacman ad1) = agent_type (pacman ad) \<and>
           is_test_mode (pacman ad1) = is_test_mode (pacman ad) \<and>
           learn_runs ad1 = learn_runs ad \<and> test_runs ad1 = test_runs ad \<and>
           ghosts ad1 = ghosts ad \<and>
           length (learn_scores r1) = length (learn_scores r) + (if t then 0 else n) \<and>
           length (test_scores r1) = length (test_scores r) + (if t then n else 0) \<and>
           sent w1 = sent w @ concat eps \<and> length eps = n \<and>
           list_all (episode_trace (is_test_mode (pacman ad))) eps \<and>
           noise w1 = noise w \<and> games_run w1 = games_run w + n"
  using assms
proof (induction n arbitrary: ad w r)
  case 0
  have "xrange_loop 0 (game e t) (ad, w) = Inr (ad, w)" by simp
  moreover have "sent w = sent w @ concat []" "length ([] :: adapter_message list list) = 0"
    "list_all (episode_trace (is_test_mode (pacman ad))) []"
    by simp_all
  moreover have "length (learn_scores r) = length (learn_scores r) + (if t then 0 else 0)"
    "length (test_scores r) = length (test_scores r) + (if t then 0 else 0)"
    "games_run w = games_run w + 0"
    by simp_all
  ultimately show ?case using "0.prems" by blast
next
  case (Suc n)
  from game_ok [OF Suc.prems(1,3), of e t] Suc.prems(2) obtain pm r1 w1 ms score where
      g: "game e t (ad, w) = Inr (ad\<lparr>pacman := pm, results := Some r1\<rparr>, w1)"
      and rdy: "ready (ad\<lparr>pacman := pm, results := Some r1\<rparr>) w1"
      and ty: "agent_type pm = agent_type (pacman ad)"
      and tm: "is_test_mode pm = is_test_mode (pacman ad)"
      and sc: "learn_scores r1 = (if t then learn_scores r else learn_scores r @ [score])"
        "test_scores r1 = (if t then test_scores r @ [score] else test_scores r)"
      and lg: "sent w1 = sent w @ ms" "episode_trace (is_test_mode (pacman ad)) ms"
      and fr: "noise w1 = noise w" "games_run w1 = Suc (games_run w)"
    by auto
  let ?ad = "ad\<lparr>pacman := pm, results := Some r1\<rparr>"
  have res: "results ?ad = Some r1" by simp
  have ty': "agent_type (pacman ?ad) \<noteq> ''ai''" using ty Suc.prems(3) by simp
  from Suc.IH [OF rdy res ty'] obtain ad2 w2 r2 eps where
      lp: "xrange_loop n (game e t) (?ad, w1) = Inr (ad2, w2)"
      and rdy2: "ready ad2 w2" and res2: "results ad2 = Some r2"
      and ty2: "agent_type (pacman ad2) = agent_type (pacman ?ad)"
      and tm2: "is_test_mode (pacman ad2) = is_test_mode (pacman ?ad)"
      and runs: "learn_runs ad2 = learn_runs ?ad" "test_runs ad2 = test_runs ?ad"
        "ghosts ad2 = ghosts ?ad"
      and sc2: "length (learn_scores r2) = length (learn_scores r1) + (if t then 0 else n)"
        "length (test_scores r2) = length (test_scores r1) + (if t then n else 0)"
      and lg2: "sent w2 = sent w1 @ concat eps" "length eps = n"
        "list_all (episode_trace (is_test_mode (pacman ?ad))) eps"
      and fr2: "noise w2 = noise w1" "games_run w2 = games_run w1 + n"
    by blast
  have "xrange_loop (Suc n) (game e t) (ad, w) = Inr (ad2, w2)" using g lp by simp
  moreover have "is_test_mode (pacman ad2) = is_test_mode (pacman ad)" using tm2 tm by simp
  moreover have "agent_type (pacman ad2) = agent_type (pacman ad)" using ty2 ty by simp
  moreover have "learn_runs ad2 = learn_runs ad" "test_runs ad2 = test_runs ad"
    "ghosts ad2 = ghosts ad"
    using runs by simp_all
  moreover have "length (learn_scores r2) = length (learn_scores r) + (if t then 0 else Suc n)"
    "length (test_scores r2) = length (test_scores r) + (if t then Suc n else 0)"
    using sc sc2 by simp_all
  moreover have "sent w2 = sent w @ concat (ms # eps)" "length (ms # eps) = Suc n"
    "list_all (episode_trace (is_test_mode (pacman ad))) (ms # eps)"
    using lg lg2 tm by simp_all
  moreover have "noise w2 = noise w" "games_run w2 = games_run w + Suc n"
    using fr fr2 by simp_all
  ultimately show ?case using rdy2 res2 by blast
qed

lemma execute_ok:
  assumes "ready ad w" "results ad = Some r" "\<not> is_test_mode (pacman ad)"
    "agent_type (pacman ad) \<noteq> ''ai''"
  shows "\<exists>ad1 w1 r1 L T.
           execute e ad w = Inr (ad1, w1) \<and> results ad1 = Some r1 \<and>
           length (learn_scores r1) = length (learn_scores r) + nat (learn_runs ad) \<and>
           length (test_scores r1) = length (test_scores r) + nat (test_runs ad) \<and>
           sent w1 = sent w @ concat L @ concat T \<and>
           length L = nat (learn_runs ad) \<and> list_all (episode_trace False) L \<and>
           length T = nat (test_runs ad) \<and> list_all (episode_trace True) T \<and>
           games_run w1 = games_run w + nat (learn_runs ad) + nat (test_runs ad) \<and>
           is_test_mode (pacman ad1) \<and> list_all ghost_test_mode (ghosts ad1) \<and>
           noise w1 = noise w"
proof -
  from loop_ok [OF assms(1,2,4), of "nat (learn_runs ad)" e False] assms(3)
  obtain ad1 w1 r1 L where
      l1: "xrange_loop (nat (learn_runs ad)) (game e False) (ad, w) = Inr (ad1, w1)"
      and rdy1: "ready ad1 w1" and res1: "results ad1 = Some r1"
      and ty1: "agent_type (pacman ad1) = agent_type (pacman ad)"
      and tm1: "\<not> is_test_mode (pacman ad1)"
      and runs1: "learn_runs ad1 = learn_runs ad" "test_runs ad1 = test_runs ad"
        "ghosts ad1 = ghosts ad"
      and sc1: "length (learn_scores r1) = length (learn_scores r) + nat (learn_runs ad)"
        "length (test_scores r1) = length (test_scores r)"
      and lg1: "sent w1 = sent w @ concat L" "length L = nat (learn_runs ad)"
        "list_all (episode_trace False) L"
      and fr1: "noise w1 = noise w" "games_run w1 = games_run w + nat (learn_runs ad)"
    by auto
  let ?ad = "ad1\<lparr>pacman := enable_test_mode (pacman ad1),
                 ghosts := map ghost_enable_test_mode (ghosts ad1)\<rparr>"
  let ?w = "call_ghosts GhostEnableTestMode (ghosts ad1) w1"
  have rdy: "ready ?ad ?w"
    using rdy1 by (auto simp: ready_def enable_test_mode_def ghost_enable_test_mode_def)
  have res: "results ?ad = Some r1" using res1 by simp
  have tm: "is_test_mode (pacman ?ad)" by (simp add: enable_test_mode_def)
  have ty: "agent_type (pacman ?ad) \<noteq> ''ai''"
    using ty1 assms(4) by (simp add: enable_test_mode_def)
  from loop_ok [OF rdy res ty, of "nat (test_runs ad)" e True] tm
  obtain ad2 w2 r2 T where
      l2: "xrange_loop (nat (test_runs ad)) (game e True) (?ad, ?w) = Inr (ad2, w2)"
      and rdy2: "ready ad2 w2" and res2: "results ad2 = Some r2"
      and tm2: "is_test_mode (pacman ad2)" and gh2: "ghosts ad2 = ghosts ?ad"
      and sc2: "length (learn_scores r2) = length (learn_scores r1)"
        "length (test_scores r2) = length (test_scores r1) + nat (test_runs ad)"
      and lg2: "sent w2 = sent ?w @ concat T" "length T = nat (test_runs ad)"
        "list_all (episode_trace True) T"
      and fr2: "noise w2 = noise ?w" "games_run w2 = games_run ?w + nat (test_runs ad)"
    by auto
  have "execute e ad w = Inr (ad2, w2)"
    using l1 l2 runs1 by (simp add: execute_def)
  moreover have "length (learn_scores r2) = length (learn_scores r) + nat (learn_runs ad)"
    "length (test_scores r2) = length (test_scores r) + nat (test_runs ad)"
    using sc1 sc2 by simp_all
  moreover have "sent w2 = sent w @ concat L @ concat T" using lg1(1) lg2(1) by simp
  moreover have "games_run w2 = games_run w + nat (learn_runs ad) + nat (test_runs ad)"
    "noise w2 = noise w"
    using fr1 fr2 by simp_all
  moreover have "list_all ghost_test_mode (ghosts ad2)"
    using gh2 by (simp add: list_all_iff ghost_enable_test_mode_def)
  ultimately show ?thesis using res2 lg1(2,3) lg2(2,3) tm2 by blast
qed

lemma map_of_const:
  "y \<in> set xs \<Longrightarrow> map_of (map (\<lambda>x. (f x, v)) xs) (f y) = Some v"
  by (induction xs) auto

lemma start_Inr:
  assumes "start e ad0 w = Inr (ad, w1)"
  shows "layout (pacman ad) = Some (adapter_layout ad0)"
    and "agent_type (pacman ad) = agent_type (pacman ad0)"
    and "is_test_mode (pacman ad) = is_test_mode (pacman ad0)"
    and "\<exists>bc. results ad = Some \<lparr>learn_scores = [], test_scores = [], behavior_count = bc\<rparr> \<and>
              (ghost_class ad0 = BehaviorLearningGhostAgent \<longrightarrow>
                 (\<forall>g \<in> set (ghosts ad0). bc (ghost_id g) \<noteq> None))"
    and "ghosts ad = ghosts ad0" and "ghost_class ad = ghost_class ad0"
    and "learn_runs ad = learn_runs ad0" and "test_runs ad = test_runs ad0"
    and "noise w1 = noise w" and "games_run w1 = games_run w"
    and "\<exists>c. sent w1 = sent w @ [RequestRegisterMessage (index (pacman ad0)) ''pacman'' c,
                                  RequestInitializationMessage (index (pacman ad0))] \<and>
             (agent_type (pacman ad0) = ''random'' \<longrightarrow> c = RandomPacmanAgent)"
    and "policies ad \<noteq> None"
    and "ghost_calls w1 = ghost_calls w @ map (\<lambda>g. (ghost_id g, GhostInitialize)) (ghosts ad0)"
proof -
  let ?ps = "load_policies_from_file e (policy_file ad0)"
  let ?pm = "(pacman ad0)\<lparr>policy := ?ps (index (pacman ad0)),
                           layout := Some (adapter_layout ad0)\<rparr>"
  let ?bc = "if ghost_class ad0 = BehaviorLearningGhostAgent
             then map_of (map (\<lambda>ghost. (ghost_id ghost, Map.empty)) (ghosts ad0))
             else Map.empty"
  let ?r = "\<lparr>learn_scores = [], test_scores = [], behavior_count = ?bc\<rparr>"
  let ?w0 = "call_ghosts GhostInitialize (ghosts ad0) w"
  from assms obtain pm1 where
      se: "start_experiment ?pm ?w0 = Inr (pm1, w1)"
      and ad: "ad = ad0\<lparr>results := Some ?r, policies := Some ?ps, pacman := pm1\<rparr>"
    by (auto simp: start_def Let_def split: sum.splits)
  from se obtain c where
      pm1: "pm1 = ?pm\<lparr>agent_class := Some c\<rparr>"
      and w1: "w1 = initialize pm1
                      (communicate (RequestRegisterMessage (index ?pm) ''pacman'' c) ?w0)"
      and c: "agent_type (pacman ad0) = ''random'' \<longrightarrow> c = RandomPacmanAgent"
    by (auto simp: start_experiment_def load_policy_def register_def
        split: sum.splits option.splits if_splits)
  show "layout (pacman ad) = Some (adapter_layout ad0)" using ad pm1 by simp
  show "agent_type (pacman ad) = agent_type (pacman ad0)" using ad pm1 by simp
  show "is_test_mode (pacman ad) = is_test_mode (pacman ad0)" using ad pm1 by simp
  show "ghosts ad = ghosts ad0" "ghost_class ad = ghost_class ad0"
    "learn_runs ad = learn_runs ad0" "test_runs ad = test_runs ad0"
    using ad by simp_all
  show "noise w1 = noise w" "games_run w1 = games_run w"
    using w1 by (simp_all add: initialize_def communicate_def)
  show "\<exists>c. sent w1 = sent w @ [RequestRegisterMessage (index (pacman ad0)) ''pacman'' c,
                                  RequestInitializationMessage (index (pacman ad0))] \<and>
             (agent_type (pacman ad0) = ''random'' \<longrightarrow> c = RandomPacmanAgent)"
    using w1 pm1 c by (simp add: initialize_def communicate_def)
  show "policies ad \<noteq> None" using ad by simp
  show "ghost_calls w1 = ghost_calls w @ map (\<lambda>g. (ghost_id g, GhostInitialize)) (ghosts ad0)"
    using w1 by (simp add: initialize_def communicate_def call_ghosts_calls)
  have "(?bc :: nat \<rightharpoonup> (string \<rightharpoonup> int list)) (ghost_id g) \<noteq> None"
    if "ghost_class ad0 = BehaviorLearningGhostAgent" "g \<in> set (ghosts ad0)" for g
    using that map_of_const [of g "ghosts ad0" ghost_id "Map.empty :: string \<rightharpoonup> int list"]
    by simp
  moreover have "results ad = Some ?r" using ad by simp
  ultimately show "\<exists>bc. results ad = Some \<lparr>learn_scores = [], test_scores = [], behavior_count = bc\<rparr> \<and>
              (ghost_class ad0 = BehaviorLearningGhostAgent \<longrightarrow>
                 (\<forall>g \<in> set (ghosts ad0). bc (ghost_id g) \<noteq> None))"
    by blast
qed

lemma build_and_start_ready:
  assumes "build_and_start e args w = Inr (ad, w1)" "0 \<le> noise w"
  shows "ready ad w1"
    and "\<exists>bc. results ad = Some \<lparr>learn_scores = [], test_scores = [], behavior_count = bc\<rparr>"
    and "\<not> is_test_mode (pacman ad)"
    and "agent_type (pacman ad) = arg_pacman_agent args"
    and "learn_runs ad = arg_learn_runs args" and "test_runs ad = arg_test_runs args"
    and "0 < arg_learn_runs args" and "0 < arg_test_runs args"
    and "games_run w1 = games_run w" and "noise w1 = noise w"
    and "\<exists>c. sent w1 = sent w @ [RequestRegisterMessage 0 ''pacman'' c,
                                  RequestInitializationMessage 0] \<and>
             (arg_pacman_agent args = ''random'' \<longrightarrow> c = RandomPacmanAgent)"
proof -
  from assms(1) obtain ad0 w0 where
      init: "BerkeleyAdapter_init e args w = Inr (ad0, w0)"
      and st: "start e ad0 w0 = Inr (ad, w1)"
    by (auto simp: build_and_start_def split: sum.splits)
  note i = BerkeleyAdapter_init_Inr [OF init]
  note s = start_Inr [OF st]
  from s(4) obtain bc where
      r: "results ad = Some \<lparr>learn_scores = [], test_scores = [], behavior_count = bc\<rparr>"
      and keys: "ghost_class ad0 = BehaviorLearningGhostAgent \<longrightarrow>
                 (\<forall>g \<in> set (ghosts ad0). bc (ghost_id g) \<noteq> None)"
    by blast
  show "ready ad w1"
    unfolding ready_def using s(1,5,6,9,12) i(1) assms(2) r keys by simp
  show "\<exists>bc. results ad = Some \<lparr>learn_scores = [], test_scores = [], behavior_count = bc\<rparr>"
    using r by blast
  show "\<not> is_test_mode (pacman ad)"
    using s(3) i(4) by (simp add: BerkeleyAdapterAgent_init_def)
  show "agent_type (pacman ad) = arg_pacman_agent args"
    using s(2) i(4) by (simp add: BerkeleyAdapterAgent_init_def)
  show "learn_runs ad = arg_learn_runs args" "test_runs ad = arg_test_runs args"
    using s(7,8) i(5,6) by simp_all
  have "\<not> isl (BerkeleyAdapter_init e args w)" using init by simp
  then show "0 < arg_learn_runs args" "0 < arg_test_runs args"
    using BerkeleyAdapter_init_fails [of e args w] by auto
  show "games_run w1 = games_run w" "noise w1 = noise w" using s(9,10) i(1,8) by simp_all
  show "\<exists>c. sent w1 = sent w @ [RequestRegisterMessage 0 ''pacman'' c,
                                  RequestInitializationMessage 0] \<and>
             (arg_pacman_agent args = ''random'' \<longrightarrow> c = RandomPacmanAgent)"
    using s(11) i(4,9) by (simp add: BerkeleyAdapterAgent_init_def)
qed

text \<open>
  An experiment whose Pac-Man agent is not of type \<^verbatim>\<open>ai\<close> and that has started: \<^verbatim>\<open>execute\<close>
  returns; it has run learn\_runs games and then test\_runs games, one score appended
  for each; the channel carries first the traces of the learning games, every state
  message with \<^verbatim>\<open>test_mode\<close> false, and then those of the test games, every state message
  with \<^verbatim>\<open>test_mode\<close> true; the agent ends in test mode.
\<close>

lemma experiment_phases:
  assumes "build_and_start e args initial_world = Inr (ad, w)"
    "arg_pacman_agent args \<noteq> ''ai''"
  shows "\<exists>ad1 w1 r1 L T.
           run_experiment e args initial_world = Inr (ad1, w1) \<and> results ad1 = Some r1 \<and>
           0 < arg_learn_runs args \<and> 0 < arg_test_runs args \<and>
           length (learn_scores r1) = nat (arg_learn_runs args) \<and>
           length (test_scores r1) = nat (arg_test_runs args) \<and>
           sent w1 = sent w @ concat L @ concat T \<and>
           length L = nat (arg_learn_runs args) \<and> list_all (episode_trace False) L \<and>
           length T = nat (arg_test_runs args) \<and> list_all (episode_trace True) T \<and>
           games_run w1 = nat (arg_learn_runs args) + nat (arg_test_runs args) \<and>
           is_test_mode (pacman ad1) \<and> list_all ghost_test_mode (ghosts ad1)"
proof -
  have n: "0 \<le> noise initial_world" by (simp add: initial_world_def)
  note b = build_and_start_ready [OF assms(1) n]
  from b(2) obtain bc where
    r: "results ad = Some \<lparr>learn_scores = [], test_scores = [], behavior_count = bc\<rparr>"
    by blast
  have ty: "agent_type (pacman ad) \<noteq> ''ai''" using b(4) assms(2) by simp
  from execute_ok [OF b(1) r b(3) ty, of e] obtain ad1 w1 r1 L T where
      ex: "execute e ad w = Inr (ad1, w1)" and res: "results ad1 = Some r1"
      and sc: "length (learn_scores r1) = nat (learn_runs ad)"
        "length (test_scores r1) = nat (test_runs ad)"
      and lg: "sent w1 = sent w @ concat L @ concat T"
        "length L = nat (learn_runs ad)" "list_all (episode_trace False) L"
        "length T = nat (test_runs ad)" "list_all (episode_trace True) T"
      and gr: "games_run w1 = games_run w + nat (learn_runs ad) + nat (test_runs ad)"
      and tm: "is_test_mode (pacman ad1)" "list_all ghost_test_mode (ghosts ad1)"
    by auto
  have "run_experiment e args initial_world = Inr (ad1, w1)"
    using assms(1) ex by (simp add: run_experiment_def)
  moreover have "games_run w1 = nat (arg_learn_runs args) + nat (arg_test_runs args)"
    using gr b(5,6,9) by (simp add: initial_world_def)
  ultimately show ?thesis
    using res sc lg tm b(5,6,7,8) by auto
qed

lemma run_experiment_ai_raises:
  assumes "build_and_start e args w0 = Inr (ad, w)" "arg_pacman_agent args = ''ai''"
    "0 \<le> noise w0"
  shows "run_experiment e args w0 = Inl (AttributeError ''pacman'')"
proof -
  note b = build_and_start_ready [OF assms(1,3)]
  have ty: "agent_type (pacman ad) = ''ai''" using b(4) assms(2) by simp
  obtain n where n: "nat (learn_runs ad) = Suc n"
    using b(5,7) by (cases "nat (learn_runs ad)") auto
  have "game e False (ad, w) = Inl (AttributeError ''pacman'')"
    using game_ai_raises [OF b(1) ty] .
  then have "execute e ad w = Inl (AttributeError ''pacman'')"
    using n by (simp add: execute_def)
  then show ?thesis using assms(1) by (simp add: run_experiment_def)
qed

lemma start_ok:
  assumes "agent_type (pacman ad) \<in> {''random'', ''random2'', ''ai'', ''eater''}"
    "policy_file ad = None"
  shows "\<not> isl (start e ad w)"
  using assms
  by (auto simp: start_def Let_def load_policies_from_file_def start_experiment_def
      load_policy_def register_def)

lemma demo_build_and_start:
  "\<not> isl (build_and_start demo_env (demo_args pa ''ai'') initial_world)"
  if "pa \<in> {''random'', ''random2'', ''ai'', ''eater''}"
proof -
  obtain ad w1 where
      r: "BerkeleyAdapter_init demo_env (demo_args pa ''ai'') initial_world = Inr (ad, w1)"
      and ty: "agent_type (pacman ad) = pa" and pf: "policy_file ad = None"
    using demo_init_ok [of "''ai''" pa] by auto
  have "agent_type (pacman ad) \<in> {''random'', ''random2'', ''ai'', ''eater''}"
    using ty that by simp
  from start_ok [OF this pf, of demo_env w1] r show ?thesis
    by (simp add: build_and_start_def)
qed

text \<open>The three learning games and two test games of the concrete experiment.\<close>

lemma experiment_phases_demo:
  "\<exists>ad w r L T.
     run_experiment demo_env (demo_args ''random'' ''ai'') initial_world = Inr (ad, w) \<and>
     results ad = Some r \<and> length (learn_scores r) = 3 \<and> length (test_scores r) = 2 \<and>
     length L = 3 \<and> list_all (episode_trace False) L \<and>
     length T = 2 \<and> list_all (episode_trace True) T \<and>
     sent w = RequestRegisterMessage 0 ''pacman'' RandomPacmanAgent
                # RequestInitializationMessage 0 # concat L @ concat T \<and>
     games_run w = 5"
proof -
  let ?args = "demo_args ''random'' ''ai''"
  have "\<not> isl (build_and_start demo_env ?args initial_world)"
    by (rule demo_build_and_start) simp
  then obtain ad0 w0 where b: "build_and_start demo_env ?args initial_world = Inr (ad0, w0)"
    by (cases "build_and_start demo_env ?args initial_world") auto
  have s0: "sent w0 = [RequestRegisterMessage 0 ''pacman'' RandomPacmanAgent,
                       RequestInitializationMessage 0]"
    using build_and_start_ready(11) [OF b] by (auto simp: initial_world_def demo_args_def)
  have ty: "arg_pacman_agent ?args \<noteq> ''ai''" by (simp add: demo_args_def)
  have runs: "nat (arg_learn_runs ?args) = 3" "nat (arg_test_runs ?args) = 2"
    by (simp_all add: demo_args_def)
  from experiment_phases [OF b ty] obtain ad w r L T where
      "run_experiment demo_env ?args initial_world = Inr (ad, w)" "results ad = Some r"
      "length (learn_scores r) = 3" "length (test_scores r) = 2"
      "sent w = sent w0 @ concat L @ concat T"
      "length L = 3" "list_all (episode_trace False) L"
      "length T = 2" "list_all (episode_trace True) T" "games_run w = 5"
    unfolding runs by auto
  moreover from this(5) have
    "sent w = RequestRegisterMessage 0 ''pacman'' RandomPacmanAgent
                # RequestInitializationMessage 0 # concat L @ concat T"
    by (simp add: s0)
  ultimately show ?thesis by blast
qed

text \<open>
  Claim C1 states what \<^verbatim>\<open>execute\<close> is written to do, and \<open>experiment_phases\<close> above proves
  it for every Pac-Man agent type but one. For the type \<^verbatim>\<open>ai\<close> the code fails: the concrete
  experiment with learn\_runs = 3 and test\_runs = 2 raises in \<^verbatim>\<open>finish_game\<close> at the end
  of its first learning game, so no further learning game and no test game is run and
  test mode is never enabled.
\<close>

theorem learning_agent_experiment_raises:
  "run_experiment demo_env (demo_args ''ai'' ''ai'') initial_world
     = Inl (AttributeError ''pacman'')"
proof -
  have "\<not> isl (build_and_start demo_env (demo_args ''ai'' ''ai'') initial_world)"
    by (rule demo_build_and_start) simp
  then obtain ad w where
    b: "build_and_start demo_env (demo_args ''ai'' ''ai'') initial_world = Inr (ad, w)"
    by (cases "build_and_start demo_env (demo_args ''ai'' ''ai'') initial_world") auto
  have "arg_pacman_agent (demo_args ''ai'' ''ai'') = ''ai''" by (simp add: demo_args_def)
  moreover have "0 \<le> noise initial_world" by (simp add: initial_world_def)
  ultimately show ?thesis using run_experiment_ai_raises [OF b] by blast
qed

section \<open>The noise attribute\<close>

lemma getAction_noise:
  assumes "getAction e a g w = Inr (act, a1, w1)"
  shows "noise w1 = noise w"
  using assms send_state_frame(2)
  by (auto simp: getAction_def receive_action_def split: sum.splits)

lemma play_noise:
  assumes "play e s a w = Inr (g1, a1, w1)"
  shows "noise w1 = noise w"
  using assms
proof (induction s arbitrary: a w)
  case (GameOver g)
  then show ?case by simp
next
  case (Turn g k)
  from Turn.prems obtain act a2 w2 where
      step: "getAction e a g w = Inr (act, a2, w2)"
      and rest: "play e (k act) a2 w2 = Inr (g1, a1, w1)"
    by (auto split: sum.splits)
  have "k act \<in> range k" by simp
  from Turn.IH [OF this rest] getAction_noise [OF step] show ?case by simp
qed

lemma log_ghosts_noise:
  assumes "log_ghosts e k gs (ad, w) = Inr (ad1, w1)"
  shows "noise w1 = noise w"
  using assms
proof (induction gs arbitrary: ad w)
  case Nil
  then show ?case by simp
next
  case (Cons g rest)
  from Cons.prems obtain ad2 w2 where
      first: "BerkeleyAdapter_log_behavior_count e k g (ad, w) = Inr (ad2, w2)"
      and rest: "log_ghosts e k rest (ad2, w2) = Inr (ad1, w1)"
    by (auto split: sum.splits)
  have "noise w2 = noise w"
    using first
    by (auto simp: BerkeleyAdapter_log_behavior_count_def Let_def
        split: if_splits option.splits sum.splits)
  with Cons.IH [OF rest] show ?case by simp
qed

lemma run_game_noise:
  assumes "run_game e ad w = Inr (score, ad1, w1)"
  shows "noise w1 = noise w"
proof -
  let ?ws = "call_ghosts GhostStartGame (ghosts ad) w"
  from assms obtain wa final pm1 w2 act pm2 w3 where
      st: "(if policy_file ad \<noteq> None
            then load_ghost_policies (policies ad) (ghosts ad) ?ws else Inr ?ws) = Inr wa"
      and pl: "play e (run_berkeley_games e (games_run wa)) (pacman ad)
             (wa\<lparr>games_run := Suc (games_run wa)\<rparr>) = Inr (final, pm1, w2)"
      and ga: "getAction e pm1 final w2 = Inr (act, pm2, w3)"
      and lg: "(if ghost_class ad = BehaviorLearningGhostAgent
                then log_ghosts e (games_run wa) (ghosts ad)
                       (ad\<lparr>pacman := pm2\<rparr>, call_ghosts GhostUpdate (ghosts ad) w3)
                else Inr (ad\<lparr>pacman := pm2\<rparr>, call_ghosts GhostUpdate (ghosts ad) w3))
               = Inr (ad1, w1)"
    by (auto simp: run_game_def Let_def split: sum.splits)
  have "noise wa = noise w"
    using st load_ghost_policies_frame [of "policies ad" "ghosts ad" ?ws wa]
    by (auto split: if_splits)
  moreover have "noise w1 = noise w3"
    using lg log_ghosts_noise [of e "games_run wa" "ghosts ad" "ad\<lparr>pacman := pm2\<rparr>"
        "call_ghosts GhostUpdate (ghosts ad) w3" ad1 w1]
    by (auto split: if_splits)
  ultimately show ?thesis using play_noise [OF pl] getAction_noise [OF ga] by simp
qed

lemma game_noise:
  assumes "game e t (ad, w) = Inr (ad1, w1)"
  shows "noise w1 = noise w"
proof -
  from assms obtain pm1 w2 score ad2 w3 r pm3 where
      sg: "start_game (pacman ad) w = Inr (pm1, w2)"
      and rg: "run_game e (ad\<lparr>pacman := pm1\<rparr>) w2 = Inr (score, ad2, w3)"
      and fg: "finish_game ((pacman ad2)\<lparr>scores := scores (pacman ad2) @ [score]\<rparr>) w3
                 = Inr (pm3, w1)"
    by (auto simp: game_def Let_def split: sum.splits option.splits)
  have "noise w2 = noise w"
    using sg by (auto simp: start_game_def request_game_start_def communicate_def Let_def
        split: option.splits)
  moreover have "noise w3 = noise w2" using rg by (rule run_game_noise)
  moreover have "w1 = w3"
    using fg by (auto simp: finish_game_def BerkeleyAdapterAgent_log_behavior_count_def
        split: if_splits)
  ultimately show ?thesis by simp
qed

lemma loop_noise:
  assumes "xrange_loop n (game e t) (ad, w) = Inr (ad1, w1)"
  shows "noise w1 = noise w"
  using assms
proof (induction n arbitrary: ad w)
  case 0
  then show ?case by simp
next
  case (Suc n)
  from Suc.prems obtain ad2 w2 where
      g: "game e t (ad, w) = Inr (ad2, w2)"
      and l: "xrange_loop n (game e t) (ad2, w2) = Inr (ad1, w1)"
    by (auto split: sum.splits)
  from Suc.IH [OF l] game_noise [OF g] show ?case by simp
qed

lemma execute_noise:
  assumes "execute e ad w = Inr (ad1, w1)"
  shows "noise w1 = noise w"
proof -
  from assms obtain ad2 w2 where
      l1: "xrange_loop (nat (learn_runs ad)) (game e False) (ad, w) = Inr (ad2, w2)"
      and l2: "xrange_loop (nat (test_runs ad2)) (game e True)
                 (ad2\<lparr>pacman := enable_test_mode (pacman ad2),
                      ghosts := map ghost_enable_test_mode (ghosts ad2)\<rparr>,
                  call_ghosts GhostEnableTestMode (ghosts ad2) w2) = Inr (ad1, w1)"
    by (auto simp: execute_def split: sum.splits)
  from loop_noise [OF l1] loop_noise [OF l2] show ?thesis by simp
qed

lemma run_experiment_noise:
  assumes "run_experiment e args w = Inr (ad1, w1)"
  shows "noise w1 = noise w"
proof -
  from assms obtain ad0 w0 ad2 w2 where
      i: "BerkeleyAdapter_init e args w = Inr (ad0, w0)"
      and s: "start e ad0 w0 = Inr (ad2, w2)"
      and x: "execute e ad2 w2 = Inr (ad1, w1)"
    by (auto simp: run_experiment_def build_and_start_def split: sum.splits)
  from BerkeleyAdapter_init_Inr(1) [OF i] start_Inr(9) [OF s] execute_noise [OF x]
  show ?thesis by simp
qed

lemma send_state_exact:
  assumes "noise w = 0" "game_state a = Some g" "send_state e a w = Inr (act, a1, w1)"
  shows "\<exists>m. sent w1 = sent w @ [StateMessage m] \<and>
           (\<forall>j < length (getGhostPositions g).
               agent_positions m (j + 1) = Some (prod.swap (getGhostPositions g ! j)))"
proof -
  let ?ps = "getGhostPositions g"
  let ?ap = "Map.empty(pacman_index w \<mapsto> prod.swap (getPacmanPosition g))"
  have n: "0 \<le> noise w" using assms(1) by simp
  from assms(2,3) obtain s d where sd: "previous_score a = Some s" "previous_action a = Some d"
    by (auto simp: send_state_def calculate_reward_def Let_def split: option.splits sum.splits)
  obtain positions where loop:
      "ghost_loop e w 0 ?ps ?ap (rng_pos w) = Inr (positions, rng_pos w + 2 * length ?ps)"
      and each: "\<forall>j < length ?ps. \<exists>dy dx.
          noise_error w (entropy e (rng_pos w + 2 * j)) = Inr dy \<and>
          noise_error w (entropy e (rng_pos w + 2 * j + 1)) = Inr dx \<and>
          positions (0 + j + 1) = Some (snd (?ps ! j) + dy, fst (?ps ! j) + dx)"
    using ghost_loop_result [OF n, of e 0 ?ps ?ap "rng_pos w"] by blast
  define m where "m = \<lparr>agent_id = index a, agent_positions = positions,
             food_positions = grid_positions (getFood g),
             fragile_agents = fragile_of (scaredTimers g),
             wall_positions = grid_positions (getWalls g),
             legal_actions = getLegalActions g (index a),
             reward = getScore g - s, executed_action = d,
             test_mode = is_test_mode a\<rparr>"
  have "sent w1 = sent w @ [StateMessage m]"
    using send_state_result [OF n assms(2) sd, of e] loop assms(3) by (auto simp: m_def)
  moreover have "agent_positions m (j + 1) = Some (prod.swap (?ps ! j))"
    if "j < length ?ps" for j
  proof -
    from each that obtain dy dx where
        "noise_error w (entropy e (rng_pos w + 2 * j)) = Inr dy"
        "noise_error w (entropy e (rng_pos w + 2 * j + 1)) = Inr dx"
        "positions (0 + j + 1) = Some (snd (?ps ! j) + dy, fst (?ps ! j) + dx)"
      by blast
    then show ?thesis
      using noise_error_zero [OF assms(1)] by (cases "?ps ! j") (simp add: m_def)
  qed
  ultimately show ?thesis by blast
qed

text \<open>
  Claim C9: the noise attribute of the agent class is never assigned. The constructor of
  the experiment, \<^verbatim>\<open>start\<close> and \<^verbatim>\<open>execute\<close> leave it as it was, whatever noise the
  constructor is given, so an experiment run from the initial state ends with the
  attribute at 0; with the attribute at 0, \<^verbatim>\<open>_noise_error\<close> returns 0 for every draw and
  the position reported for every ghost is its true position.
\<close>

theorem noise_never_assigned:
  "(BerkeleyAdapter_init e args w = Inr (ad1, w1) \<longrightarrow> noise w1 = noise w)
   \<and> (start e ad w = Inr (ad2, w2) \<longrightarrow> noise w2 = noise w)
   \<and> (execute e ad w = Inr (ad3, w3) \<longrightarrow> noise w3 = noise w)
   \<and> (run_experiment e args initial_world = Inr (ad4, w4) \<longrightarrow> noise w4 = 0)
   \<and> (noise w = 0 \<longrightarrow> noise_error w u = Inr 0)
   \<and> (noise w = 0 \<longrightarrow> game_state a = Some g \<longrightarrow> send_state e a w = Inr (act, a5, w5) \<longrightarrow>
        (\<exists>m. sent w5 = sent w @ [StateMessage m] \<and>
             (\<forall>j < length (getGhostPositions g).
                 agent_positions m (j + 1) = Some (prod.swap (getGhostPositions g ! j)))))"
proof (intro conjI impI)
  assume "BerkeleyAdapter_init e args w = Inr (ad1, w1)"
  then show "noise w1 = noise w" by (rule BerkeleyAdapter_init_Inr(1))
next
  assume "start e ad w = Inr (ad2, w2)"
  then show "noise w2 = noise w" by (rule start_Inr(9))
next
  assume "execute e ad w = Inr (ad3, w3)"
  then show "noise w3 = noise w" by (rule execute_noise)
next
  assume "run_experiment e args initial_world = Inr (ad4, w4)"
  then have "noise w4 = noise initial_world" by (rule run_experiment_noise)
  then show "noise w4 = 0" by (simp add: initial_world_def)
next
  assume "noise w = 0"
  then show "noise_error w u = Inr 0" by (rule noise_error_zero)
next
  assume "noise w = 0" "game_state a = Some g" "send_state e a w = Inr (act, a5, w5)"
  then show "\<exists>m. sent w5 = sent w @ [StateMessage m] \<and>
             (\<forall>j < length (getGhostPositions g).
                 agent_positions m (j + 1) = Some (prod.swap (getGhostPositions g ! j)))"
    by (rule send_state_exact)
qed

theorem noise_never_assigned_witness:
  "arg_noise (demo_args ''random'' ''ai'') = 2
   \<and> (\<exists>ad1 w1. BerkeleyAdapter_init demo_env (demo_args ''random'' ''ai'') initial_world
                  = Inr (ad1, w1) \<and> noise w1 = 0
        \<and> (\<exists>ad2 w2. start demo_env ad1 w1 = Inr (ad2, w2) \<and> noise w2 = 0
             \<and> (\<exists>ad3 w3. execute demo_env ad2 w2 = Inr (ad3, w3) \<and> noise w3 = 0)))
   \<and> (\<exists>ad4 w4. run_experiment demo_env (demo_args ''random'' ''ai'') initial_world
                  = Inr (ad4, w4) \<and> noise w4 = 0)
   \<and> noise_error initial_world 3 = Inr 0
   \<and> (\<exists>act a5 w5 m.
         send_state demo_env ((demo_agent ''random'')\<lparr>game_state := Some (demo_state 10)\<rparr>)
           initial_world = Inr (act, a5, w5)
         \<and> sent w5 = [StateMessage m]
         \<and> agent_positions m 1 = Some (4, 3) \<and> agent_positions m 2 = Some (6, 5))"
proof -
  let ?args = "demo_args ''random'' ''ai''"
  let ?a = "(demo_agent ''random'')\<lparr>game_state := Some (demo_state 10)\<rparr>"
  have n0: "noise initial_world = 0" "sent initial_world = []"
    by (simp_all add: initial_world_def)
  have "\<not> isl (build_and_start demo_env ?args initial_world)"
    by (rule demo_build_and_start) simp
  then obtain ad2 w2 where b: "build_and_start demo_env ?args initial_world = Inr (ad2, w2)"
    by (cases "build_and_start demo_env ?args initial_world") auto
  then obtain ad1 w1 where
      i: "BerkeleyAdapter_init demo_env ?args initial_world = Inr (ad1, w1)"
      and s: "start demo_env ad1 w1 = Inr (ad2, w2)"
    by (auto simp: build_and_start_def split: sum.splits)
  have "arg_pacman_agent ?args \<noteq> ''ai''" by (simp add: demo_args_def)
  from experiment_phases [OF b this] obtain ad4 w4 where
    r: "run_experiment demo_env ?args initial_world = Inr (ad4, w4)"
    by blast
  then have x: "execute demo_env ad2 w2 = Inr (ad4, w4)"
    using b by (simp add: run_experiment_def)
  have a: "game_state ?a = Some (demo_state 10)" "previous_score ?a = Some 0"
    "previous_action ?a = Some NORTH"
    by (simp_all add: demo_agent_def reset_game_data_def)
  obtain act a5 w5 where t: "send_state demo_env ?a initial_world = Inr (act, a5, w5)"
    using send_state_effect [OF _ a, of initial_world demo_env] n0(1) by auto
  have 1: "noise w1 = 0"
    using noise_never_assigned [where e = demo_env and args = ?args and w = initial_world
        and ?ad1.0 = ad1 and ?w1.0 = w1] i n0(1)
    by simp
  have 2: "noise w2 = 0"
    using noise_never_assigned [where e = demo_env and w = w1 and ad = ad1
        and ?ad2.0 = ad2 and ?w2.0 = w2] s 1
    by simp
  have 3: "noise w4 = 0"
    using noise_never_assigned [where e = demo_env and w = w2 and ad = ad2
        and ?ad3.0 = ad4 and ?w3.0 = w4] x 2
    by simp
  have 4: "noise_error initial_world 3 = Inr 0"
    using noise_never_assigned [where w = initial_world and u = 3] n0(1) by blast
  from noise_never_assigned [where e = demo_env and w = initial_world and a = ?a
      and g = "demo_state 10" and act = act and ?a5.0 = a5 and ?w5.0 = w5] n0(1) a(1) t
  obtain m where m: "sent w5 = sent initial_world @ [StateMessage m]"
      and each: "\<forall>j < length (getGhostPositions (demo_state 10)).
          agent_positions m (j + 1) = Some (prod.swap (getGhostPositions (demo_state 10) ! j))"
    by blast
  have 5: "agent_positions m 1 = Some (4, 3)"
    using each [rule_format, of 0] by (simp add: demo_state_def)
  have 6: "agent_positions m 2 = Some (6, 5)"
    using each [rule_format, of 1] by (simp add: demo_state_def numeral_2_eq_2)
  have 7: "sent w5 = [StateMessage m]" using m n0(2) by simp
  have 8: "arg_noise ?args = 2" by (simp add: demo_args_def)
  from 8 i 1 s 2 x 3 r 4 t 7 5 6 show ?thesis by blast
qed

end
